theory Spec2Isabelle
  imports Complex_Main "HOL-Library.Word"
begin

unbundle bit_operations_syntax

section \<open>JavaScript values used by the sandbox agent\<close>

text \<open>
  A JavaScript \<open>number\<close> is a double. The code under study only compares numbers,
  takes their minimum, tests them for falsiness and subtracts clock readings, so a finite
  double is represented by its exact rational value; \<open>NaN\<close> and the two infinities are
  separate constructors. Both zeros are \<open>Fin 0\<close>.
\<close>

datatype jsnum = NaN | NegInf | Fin rat | PosInf

text \<open>The operator \<open><=\<close> on numbers: every comparison with \<open>NaN\<close> is false.\<close>

fun js_le :: "jsnum \<Rightarrow> jsnum \<Rightarrow> bool" where
  "js_le NaN _ = False"
| "js_le _ NaN = False"
| "js_le NegInf _ = True"
| "js_le _ PosInf = True"
| "js_le (Fin a) (Fin b) = (a \<le> b)"
| "js_le (Fin a) NegInf = False"
| "js_le PosInf (Fin b) = False"
| "js_le PosInf NegInf = False"

text \<open>\<open>Math.min(a, b)\<close>: \<open>NaN\<close> if either argument is \<open>NaN\<close>, else the smaller one.\<close>

fun Math_min :: "jsnum \<Rightarrow> jsnum \<Rightarrow> jsnum" where
  "Math_min NaN _ = NaN"
| "Math_min _ NaN = NaN"
| "Math_min a b = (if js_le a b then a else b)"

text \<open>Truthiness of a number: \<open>0\<close>, \<open>-0\<close> and \<open>NaN\<close> are falsy.\<close>

fun truthy_num :: "jsnum \<Rightarrow> bool" where
  "truthy_num NaN = False"
| "truthy_num (Fin r) = (r \<noteq> 0)"
| "truthy_num _ = True"

text \<open>
  \<open>a || b\<close> where \<open>a\<close> is an optional number (\<open>None\<close> is \<open>undefined\<close>) and \<open>b\<close> a
  number.
\<close>

fun or_num :: "jsnum option \<Rightarrow> jsnum \<Rightarrow> jsnum" where
  "or_num None d = d"
| "or_num (Some a) d = (if truthy_num a then a else d)"

text \<open>\<open>a || b\<close> where \<open>a\<close> is an optional string: \<open>undefined\<close> and \<open>''\<close> are falsy.\<close>

fun or_str :: "string option \<Rightarrow> string \<Rightarrow> string" where
  "or_str None d = d"
| "or_str (Some a) d = (if a = [] then d else a)"

subsection \<open>Strings\<close>

text \<open>\<open>s.startsWith(p)\<close> and \<open>s.includes(p)\<close>.\<close>

fun starts_with :: "string \<Rightarrow> string \<Rightarrow> bool" where
  "starts_with _ [] = True"
| "starts_with [] (_ # _) = False"
| "starts_with (c # cs) (d # ds) = (c = d \<and> starts_with cs ds)"

fun str_includes :: "string \<Rightarrow> string \<Rightarrow> bool" where
  "str_includes [] p = (p = [])"
| "str_includes (c # cs) p = (starts_with (c # cs) p \<or> str_includes cs p)"

text \<open>
  White space as \<open>String.prototype.trim\<close> and \<open>parseFloat\<close> strip it: TAB, LF, VT, FF,
  CR, SP and NBSP among the code units below 256.
\<close>

definition is_space :: "char \<Rightarrow> bool" where
  "is_space c = (c \<in> set [CHR 0x09, CHR 0x0A, CHR 0x0B, CHR 0x0C, CHR 0x0D, CHR 0x20, CHR 0xA0])"

definition trim :: "string \<Rightarrow> string" where
  "trim s = rev (dropWhile is_space (rev (dropWhile is_space s)))"

text \<open>\<open>s.split(',')\<close> for a one-character separator: never an empty array.\<close>

fun split_on :: "char \<Rightarrow> string \<Rightarrow> string list" where
  "split_on sep [] = [[]]"
| "split_on sep (c # cs) =
     (if c = sep then [] # split_on sep cs
      else (case split_on sep cs of
              [] \<Rightarrow> [[c]]
            | w # ws \<Rightarrow> (c # w) # ws))"

text \<open>
  Decimal digits of a natural number, as \<open>Number.prototype.toString\<close> prints integers;
  \<open>digit_char\<close> is only applied to numbers below 10.
\<close>

definition digit_char :: "nat \<Rightarrow> char" where
  "digit_char d = ''0123456789'' ! d"

fun show_nat :: "nat \<Rightarrow> string" where
  "show_nat n = (if n < 10 then [digit_char n] else show_nat (n div 10) @ [digit_char (n mod 10)])"

declare show_nat.simps [simp del]

definition show_int :: "int \<Rightarrow> string" where
  "show_int i = (if i < 0 then CHR ''-'' # show_nat (nat (- i)) else show_nat (nat i))"

subsection \<open>\<open>parseFloat\<close>\<close>

text \<open>
  \<open>parseFloat\<close> skips leading white space, reads an optional sign and then the longest
  prefix that is \<open>Infinity\<close> or a decimal literal (digits, an optional fraction, an
  optional exponent); with no such prefix the result is \<open>NaN\<close>. The value is kept as the
  exact rational of the literal: rounding to the nearest double is monotone, so \<open>js_le\<close>
  between two parsed literals holds whenever it holds between their exact values. The
  converse holds only for literals that round to different doubles: JavaScript reads
  \<open>0.020000000000000001\<close> as \<open>0.02\<close> and \<open>1e400\<close> as \<open>Infinity\<close>, and this definition
  does not. The prices compared below (\<open>0.01\<close>, \<open>0.02\<close>, \<open>0.05\<close>, \<open>0.10\<close>) are four
  different doubles in the order of their exact values.
\<close>

definition is_digit :: "char \<Rightarrow> bool" where
  "is_digit c = (48 \<le> (of_char c :: nat) \<and> (of_char c :: nat) \<le> 57)"

definition digits_val :: "string \<Rightarrow> nat" where
  "digits_val ds = foldl (\<lambda>a c. 10 * a + ((of_char c :: nat) - 48)) 0 ds"

definition parse_exponent :: "string \<Rightarrow> int" where
  "parse_exponent s =
     (case s of
        [] \<Rightarrow> 0
      | c # r \<Rightarrow>
          if c = CHR ''e'' \<or> c = CHR ''E'' then
            (case r of
               [] \<Rightarrow> 0
             | d # r' \<Rightarrow>
                 if d = CHR ''-'' then
                   (if takeWhile is_digit r' = [] then 0 else - int (digits_val (takeWhile is_digit r')))
                 else if d = CHR ''+'' then int (digits_val (takeWhile is_digit r'))
                 else int (digits_val (takeWhile is_digit r)))
          else 0)"

definition scale10 :: "rat \<Rightarrow> int \<Rightarrow> rat" where
  "scale10 m e = (if 0 \<le> e then m * 10 ^ nat e else m / 10 ^ nat (- e))"

definition parse_unsigned :: "string \<Rightarrow> rat option" where
  "parse_unsigned u =
     (let ip = takeWhile is_digit u;
          r1 = dropWhile is_digit u;
          fp = (case r1 of [] \<Rightarrow> [] | c # r \<Rightarrow> if c = CHR ''.'' then takeWhile is_digit r else []);
          r2 = (case r1 of [] \<Rightarrow> [] | c # r \<Rightarrow> if c = CHR ''.'' then dropWhile is_digit r else r1)
      in if ip = [] \<and> fp = [] then None
         else Some (scale10 (of_nat (digits_val (ip @ fp)) / 10 ^ length fp) (parse_exponent r2)))"

definition parseFloat :: "string \<Rightarrow> jsnum" where
  "parseFloat s =
     (let t = dropWhile is_space s;
          neg = (case t of [] \<Rightarrow> False | c # _ \<Rightarrow> c = CHR ''-'');
          u = (case t of [] \<Rightarrow> [] | c # r \<Rightarrow> if c = CHR ''-'' \<or> c = CHR ''+'' then r else t)
      in if starts_with u ''Infinity'' then (if neg then NegInf else PosInf)
         else (case parse_unsigned u of
                 None \<Rightarrow> NaN
               | Some m \<Rightarrow> Fin (if neg then - m else m)))"

section \<open>Configuration (src/lib/config.ts)\<close>

text \<open>\<open>process.env\<close>: a variable is either unset or a string.\<close>

type_synonym env = "string \<Rightarrow> string option"

definition WALLET_ADDRESSES_base :: "env \<Rightarrow> string" where
  "WALLET_ADDRESSES_base env =
     or_str (env ''AGENT_WALLET_ADDRESS_BASE'') ''0x11c24Fbcd702cd611729F8402d8fB51ECa75Ba83''"

definition BASE_NETWORK_name :: string where
  "BASE_NETWORK_name = ''base''"

definition BASE_NETWORK_usdcAddress :: "env \<Rightarrow> string" where
  "BASE_NETWORK_usdcAddress env =
     or_str (env ''USDC_CONTRACT_ADDRESS'') ''0x833589fCD6eDb6E08f4c7C32D4f71b54bdA02913''"

definition X402_CONFIG_paymentToken :: "env \<Rightarrow> string" where
  "X402_CONFIG_paymentToken env = or_str (env ''PAYMENT_TOKEN'') ''USDC''"

record pricing =
  basic :: jsnum
  standard :: jsnum
  premium :: jsnum

definition PRICING :: "env \<Rightarrow> pricing" where
  "PRICING env =
     \<lparr> basic = parseFloat (or_str (env ''BASIC_EXECUTION_PRICE'') ''0.01''),
       standard = parseFloat (or_str (env ''STANDARD_EXECUTION_PRICE'') ''0.02''),
       premium = parseFloat (or_str (env ''PREMIUM_EXECUTION_PRICE'') ''0.05'') \<rparr>"

definition SANDBOX_LIMITS_allowedLanguages :: "env \<Rightarrow> string list" where
  "SANDBOX_LIMITS_allowedLanguages env =
     split_on CHR '','' (or_str (env ''ALLOWED_LANGUAGES'') ''javascript,python'')"

section \<open>Tier policy (TIER_LIMITS in src/lib/sandbox.ts)\<close>

datatype tier = Basic | Standard | Premium

datatype language = Javascript | Python

fun tier_name :: "tier \<Rightarrow> string" where
  "tier_name Basic = ''basic''"
| "tier_name Standard = ''standard''"
| "tier_name Premium = ''premium''"

fun language_name :: "language \<Rightarrow> string" where
  "language_name Javascript = ''javascript''"
| "language_name Python = ''python''"

record tier_limits =
  timeout :: nat
  memory :: nat
  features :: "string list"

fun TIER_LIMITS :: "tier \<Rightarrow> tier_limits" where
  "TIER_LIMITS Basic =
     \<lparr> timeout = 10000, memory = 64, features = [''console.log''] \<rparr>"
| "TIER_LIMITS Standard =
     \<lparr> timeout = 30000, memory = 128, features = [''console.log'', ''Math'', ''Date''] \<rparr>"
| "TIER_LIMITS Premium =
     \<lparr> timeout = 60000, memory = 256, features = [''console.log'', ''Math'', ''Date'', ''JSON''] \<rparr>"

text \<open>The price of a tier: the entry of \<open>CONFIG.pricing\<close> with the tier's name.\<close>

fun tier_price :: "env \<Rightarrow> tier \<Rightarrow> jsnum" where
  "tier_price env Basic = basic (PRICING env)"
| "tier_price env Standard = standard (PRICING env)"
| "tier_price env Premium = premium (PRICING env)"

text \<open>The order of the tiers as the specification lists them: basic, standard, premium.\<close>

fun tier_rank :: "tier \<Rightarrow> nat" where
  "tier_rank Basic = 0"
| "tier_rank Standard = 1"
| "tier_rank Premium = 2"

definition tier_less :: "tier \<Rightarrow> tier \<Rightarrow> bool" where
  "tier_less t1 t2 = (tier_rank t1 < tier_rank t2)"

section \<open>Sandbox executor (src/lib/sandbox.ts)\<close>

subsection \<open>Values, thrown values, the host\<close>

text \<open>
  A value of type \<open>any\<close>. An object is the list of its properties in property order
  (\<open>Record<string, any>\<close>).
\<close>

datatype jsvalue =
    JUndefined
  | JNull
  | JBool bool
  | JNum jsnum
  | JStr string
  | JArr "jsvalue list"
  | JObj "(string \<times> jsvalue) list"

type_synonym jsrecord = "(string \<times> jsvalue) list"

text \<open>
  \<open>{...o, k: v}\<close> for a key that is not an array index: an existing property keeps its
  place and takes the new value, a new one goes last.
\<close>

fun obj_set :: "jsrecord \<Rightarrow> string \<Rightarrow> jsvalue \<Rightarrow> jsrecord" where
  "obj_set [] k v = [(k, v)]"
| "obj_set ((k', v') # ps) k v = (if k' = k then (k, v) # ps else (k', v') # obj_set ps k v)"

text \<open>\<open>o[k]\<close>: \<open>undefined\<close> for a property the object does not have.\<close>

definition obj_get :: "jsrecord \<Rightarrow> string \<Rightarrow> jsvalue" where
  "obj_get ps k = (case map_of ps k of None \<Rightarrow> JUndefined | Some v \<Rightarrow> v)"

text \<open>
  What a \<open>catch (error: any)\<close> can receive: \<open>null\<close>, \<open>undefined\<close>, or a value whose
  \<open>message\<close> property is \<open>undefined\<close> or a string. \<open>new Error(m)\<close> is \<open>Thrown (Some m)\<close>.
\<close>

datatype thrown = ThrownNull | ThrownUndefined | Thrown "string option"

abbreviation new_Error :: "string \<Rightarrow> thrown" where
  "new_Error m \<equiv> Thrown (Some m)"

text \<open>
  \<open>error.message\<close>: reading a property of \<open>null\<close> or \<open>undefined\<close> throws a TypeError
  (the text is V8's).
\<close>

fun get_message :: "thrown \<Rightarrow> thrown + string option" where
  "get_message ThrownNull = Inl (new_Error ''Cannot read properties of null (reading 'message')'')"
| "get_message ThrownUndefined =
     Inl (new_Error ''Cannot read properties of undefined (reading 'message')'')"
| "get_message (Thrown m) = Inr m"

text \<open>\<open>m?.includes(p)\<close> used as a condition: \<open>undefined\<close> is falsy.\<close>

fun opt_includes :: "string option \<Rightarrow> string \<Rightarrow> bool" where
  "opt_includes None p = False"
| "opt_includes (Some m) p = str_includes m p"

text \<open>
  How a call into the isolate ends, in the terms of the specification: it completes with
  a value, it fails with an error of its own, the timeout aborts it, or the memory limit
  does. The last three throw a value.
\<close>

datatype 'a outcome = Completed 'a | Errored thrown | TimedOut thrown | MemoryExceeded thrown

text \<open>
  When the memory limit is hit the library disposes the isolate itself, before the
  caller sees the error.
\<close>

fun library_disposed :: "'a outcome \<Rightarrow> bool" where
  "library_disposed (MemoryExceeded e) = True"
| "library_disposed _ = False"

text \<open>
  The host: the built-ins and libraries the executor calls and whose code is not part of
  the repository. \<open>Date_now k\<close> is the \<open>k\<close>-th reading of the clock and \<open>nanoid k n\<close> the
  \<open>k\<close>-th identifier drawn, of requested size \<open>n\<close>. SHA-256 returns 256 bits.
  The isolated-vm calls are indexed by the isolate they act on; a library call either
  returns or throws an \<open>Error\<close> with a message (\<open>Some m\<close>, \<open>Inl m\<close>), while
  \<open>script.run\<close> either completes, with the messages the script logged, or ends in one
  of the three other ways with a thrown value, which may be any value the script threw.
\<close>

record host =
  sha256 :: "string \<Rightarrow> 256 word"
  JSON_stringify :: "jsvalue \<Rightarrow> string"
  double_toString :: "rat \<Rightarrow> string"
  Date_now :: "nat \<Rightarrow> int"
  nanoid :: "nat \<Rightarrow> nat \<Rightarrow> string"
  ivm_new :: "nat \<Rightarrow> nat \<Rightarrow> string option"
  ivm_createContext :: "nat \<Rightarrow> string option"
  ivm_global_set :: "nat \<Rightarrow> string option"
  ivm_compileScript :: "nat \<Rightarrow> string \<Rightarrow> string option"
  ivm_run :: "nat \<Rightarrow> string \<Rightarrow> jsnum \<Rightarrow> string list outcome"
  ivm_getHeapStatistics :: "nat \<Rightarrow> string + nat"

text \<open>
  The state the calls change: how often the clock was read, how many identifiers were
  drawn, how many isolates were created (isolate \<open>i\<close> is the \<open>i\<close>-th one) and which
  isolates were disposed, latest first.
\<close>

record world =
  ticks :: nat
  ids :: nat
  created :: nat
  disposed :: "nat list"

definition read_clock :: "host \<Rightarrow> world \<Rightarrow> int \<times> world" where
  "read_clock h w = (Date_now h (ticks w), w\<lparr>ticks := Suc (ticks w)\<rparr>)"

definition draw_nanoid :: "host \<Rightarrow> nat \<Rightarrow> world \<Rightarrow> string \<times> world" where
  "draw_nanoid h n w = (nanoid h (ids w) n, w\<lparr>ids := Suc (ids w)\<rparr>)"

definition mark_disposed :: "nat \<Rightarrow> world \<Rightarrow> world" where
  "mark_disposed isolate w = w\<lparr>disposed := isolate # disposed w\<rparr>"

text \<open>
  \<open>isolate.dispose()\<close>: disposes the isolate, and throws when the isolate is already
  disposed (\<open>Some m\<close>: the message of the error).
\<close>

definition dispose :: "nat \<Rightarrow> world \<Rightarrow> string option \<times> world" where
  "dispose isolate w =
     (if isolate \<in> set (disposed w) then (Some ''Isolate is already disposed'', w)
      else (None, mark_disposed isolate w))"

definition live_isolates :: "world \<Rightarrow> nat list" where
  "live_isolates w = filter (\<lambda>i. i \<notin> set (disposed w)) [0..<created w]"

text \<open>
  A number in a template literal: an integer up to \<open>2^53\<close> in absolute value prints its
  decimal digits; every other finite value is left to the host's formatting of doubles
  (the shortest digits that read back as the same double).
\<close>

definition number_toString :: "host \<Rightarrow> jsnum \<Rightarrow> string" where
  "number_toString h x =
     (case x of
        NaN \<Rightarrow> ''NaN''
      | NegInf \<Rightarrow> ''-Infinity''
      | PosInf \<Rightarrow> ''Infinity''
      | Fin r \<Rightarrow>
          if of_int \<lfloor>r\<rfloor> = r \<and> \<bar>r\<bar> \<le> 2 ^ 53 then show_int \<lfloor>r\<rfloor> else double_toString h r)"

text \<open>
  \<open>digest('hex')\<close>: the 64 lower-case hexadecimal digits of the 256 bits, the most
  significant first; \<open>hex_char\<close> is only applied to the value of four bits.
\<close>

definition hex_char :: "nat \<Rightarrow> char" where
  "hex_char d = ''0123456789abcdef'' ! d"

definition digest_hex :: "256 word \<Rightarrow> string" where
  "digest_hex d = map (\<lambda>i. hex_char (unat (drop_bit (4 * i) d AND 15))) (rev [0..<64])"

subsection \<open>Requests and results\<close>

record ExecutionRequest =
  req_code :: string
  req_language :: language
  req_tier :: tier
  req_timeout :: "jsnum option"

record ExecutionResult =
  res_success :: bool
  res_output :: string
  res_error :: "string option"
  res_executionTime :: int
  res_memoryUsed :: nat
  res_proof :: string
  res_executionId :: string
  res_tier :: string

subsection \<open>Proofs of execution\<close>

text \<open>
  \<open>generateProof\<close> reads the clock itself: the timestamp is not an argument. The
  properties of \<open>data\<close> come first, then \<open>timestamp\<close>, \<open>network\<close> and \<open>executor\<close>,
  each replacing a property of \<open>data\<close> with the same name. The serialised object is
  hashed and the digest printed in hexadecimal.
\<close>

definition generateProof :: "host \<Rightarrow> env \<Rightarrow> jsrecord \<Rightarrow> world \<Rightarrow> string \<times> world" where
  "generateProof h env data w =
     (let (now, w') = read_clock h w;
          proofData =
            JSON_stringify h
              (JObj (obj_set
                       (obj_set
                          (obj_set data ''timestamp'' (JNum (Fin (of_int now))))
                          ''network'' (JStr BASE_NETWORK_name))
                       ''executor'' (JStr (WALLET_ADDRESSES_base env))))
      in (digest_hex (sha256 h proofData), w'))"

definition verifyProof :: "host \<Rightarrow> env \<Rightarrow> string \<Rightarrow> jsrecord \<Rightarrow> world \<Rightarrow> bool \<times> world" where
  "verifyProof h env prf data w =
     (let (regeneratedProof, w') = generateProof h env data w
      in (prf = regeneratedProof, w'))"

subsection \<open>The isolation engine\<close>

text \<open>The user's code between the console shim and the closing line of the template.\<close>

definition wrap_code :: "string \<Rightarrow> string" where
  "wrap_code code =
     [CHR 0x0A] @ ''        const console = { '' @ [CHR 0x0A]
     @ ''          log: (...args) => log(args.map(a => String(a)).join(' '))'' @ [CHR 0x0A]
     @ ''        };'' @ [CHR 0x0A]
     @ ''        '' @ code @ [CHR 0x0A]
     @ ''      ''"

text \<open>
  The calls of the \<open>try\<close> block of \<open>executeJavaScript\<close> up to the heap statistics:
  create the context, inject \<open>log\<close>, compile, run under the timeout, read the heap
  statistics. Every one of them may throw; only the run can end by the timeout or the
  memory limit. The output is every logged message followed by a line feed. Building the
  \<open>Reference\<close> is taken to succeed.
\<close>

definition isolate_calls :: "host \<Rightarrow> nat \<Rightarrow> string \<Rightarrow> jsnum \<Rightarrow> (string \<times> nat) outcome" where
  "isolate_calls h isolate code timeout_ms =
     (case ivm_createContext h isolate of
        Some m \<Rightarrow> Errored (new_Error m)
      | None \<Rightarrow>
     (case ivm_global_set h isolate of
        Some m \<Rightarrow> Errored (new_Error m)
      | None \<Rightarrow>
     (case ivm_compileScript h isolate (wrap_code code) of
        Some m \<Rightarrow> Errored (new_Error m)
      | None \<Rightarrow>
     (case ivm_run h isolate (wrap_code code) timeout_ms of
        Errored e \<Rightarrow> Errored e
      | TimedOut e \<Rightarrow> TimedOut e
      | MemoryExceeded e \<Rightarrow> MemoryExceeded e
      | Completed logged \<Rightarrow>
     (case ivm_getHeapStatistics h isolate of
        Inl m \<Rightarrow> Errored (new_Error m)
      | Inr used_heap_size \<Rightarrow>
          Completed (concat (map (\<lambda>msg. msg @ [CHR 0x0A]) logged), used_heap_size))))))"

text \<open>
  The \<open>try\<close> block: the calls above, then \<open>isolate.dispose()\<close> and the return of the
  trimmed output and the heap size. An error of the calls, or of \<open>dispose\<close>, leaves the
  block for the \<open>catch\<close>.
\<close>

definition run_in_isolate ::
  "host \<Rightarrow> nat \<Rightarrow> string \<Rightarrow> jsnum \<Rightarrow> world \<Rightarrow> (thrown + string \<times> nat) \<times> world" where
  "run_in_isolate h isolate code timeout_ms w =
     (let r = isolate_calls h isolate code timeout_ms;
          w1 = (if library_disposed r then mark_disposed isolate w else w)
      in case r of
           Errored e \<Rightarrow> (Inl e, w1)
         | TimedOut e \<Rightarrow> (Inl e, w1)
         | MemoryExceeded e \<Rightarrow> (Inl e, w1)
         | Completed (out, used_heap_size) \<Rightarrow>
             (case dispose isolate w1 of
                (Some m, w2) \<Rightarrow> (Inl (new_Error m), w2)
              | (None, w2) \<Rightarrow> (Inr (trim out, used_heap_size), w2)))"

text \<open>
  \<open>executeJavaScript\<close>. The isolate is created before the \<open>try\<close>. The \<open>catch\<close> block
  first disposes it, and an error of that \<open>dispose\<close> leaves the function in place of the
  one caught; then it rewrites an error whose message contains \<open>timeout\<close> or \<open>memory\<close>
  and rethrows every other error as it is.
\<close>

definition executeJavaScript ::
  "host \<Rightarrow> string \<Rightarrow> jsnum \<Rightarrow> nat \<Rightarrow> string \<Rightarrow> world \<Rightarrow> (thrown + string \<times> nat) \<times> world" where
  "executeJavaScript h code timeout_ms memoryLimitMB execId w =
     (case ivm_new h (created w) memoryLimitMB of
        Some m \<Rightarrow> (Inl (new_Error m), w)
      | None \<Rightarrow>
          (let isolate = created w;
               w1 = w\<lparr>created := Suc (created w)\<rparr>
           in case run_in_isolate h isolate code timeout_ms w1 of
                (Inr r, w2) \<Rightarrow> (Inr r, w2)
              | (Inl e, w2) \<Rightarrow>
                  (case dispose isolate w2 of
                     (Some m, w3) \<Rightarrow> (Inl (new_Error m), w3)
                   | (None, w3) \<Rightarrow>
                       (case get_message e of
                          Inl type_error \<Rightarrow> (Inl type_error, w3)
                        | Inr message \<Rightarrow>
                            if opt_includes message ''timeout'' then
                              (Inl (new_Error (''Execution timeout: code ran longer than ''
                                               @ number_toString h timeout_ms @ ''ms'')), w3)
                            else if opt_includes message ''memory'' then
                              (Inl (new_Error (''Memory limit exceeded: maximum ''
                                               @ show_nat memoryLimitMB @ ''MB'')), w3)
                            else (Inl e, w3)))))"

subsection \<open>\<open>execute\<close>\<close>

text \<open>
  Step 3 of \<open>execute\<close>: \<open>Math.min(request.timeout || tierLimits.timeout,
  tierLimits.timeout)\<close>, with \<open>tierLimits.timeout\<close> as a number.
\<close>

definition timeout_ceiling :: "tier \<Rightarrow> jsnum" where
  "timeout_ceiling t = Fin (of_nat (timeout (TIER_LIMITS t)))"

definition effective_timeout :: "ExecutionRequest \<Rightarrow> jsnum" where
  "effective_timeout request =
     Math_min (or_num (req_timeout request) (timeout_ceiling (req_tier request)))
       (timeout_ceiling (req_tier request))"

text \<open>The \<open>try\<close> block of \<open>execute\<close>.\<close>

definition execute_try ::
  "host \<Rightarrow> env \<Rightarrow> ExecutionRequest \<Rightarrow> string \<Rightarrow> int \<Rightarrow> world
     \<Rightarrow> (thrown + ExecutionResult) \<times> world" where
  "execute_try h env request execId startTime w =
     (if language_name (req_language request) \<notin> set (SANDBOX_LIMITS_allowedLanguages env) then
        (Inl (new_Error (''Language '' @ language_name (req_language request) @ '' not supported'')), w)
      else if req_language request \<noteq> Javascript then
        (Inl (new_Error ''Python execution coming soon. Use JavaScript for now.''), w)
      else
        (case executeJavaScript h (req_code request) (effective_timeout request)
                (memory (TIER_LIMITS (req_tier request))) execId w of
           (Inl e, w1) \<Rightarrow> (Inl e, w1)
         | (Inr (out, used), w1) \<Rightarrow>
             (let (now, w2) = read_clock h w1;
                  elapsed = now - startTime;
                  (prf, w3) =
                    generateProof h env
                      [(''code'', JStr (req_code request)),
                       (''output'', JStr out),
                       (''executionTime'', JNum (Fin (of_int elapsed))),
                       (''executionId'', JStr execId)] w2
              in (Inr \<lparr> res_success = True,
                         res_output = out,
                         res_error = None,
                         res_executionTime = elapsed,
                         res_memoryUsed = used,
                         res_proof = prf,
                         res_executionId = execId,
                         res_tier = tier_name (req_tier request) \<rparr>, w3))))"

text \<open>
  The \<open>catch\<close> block of \<open>execute\<close>. Reading \<open>error.message\<close> is the one step of it that
  can throw.
\<close>

definition execute_catch ::
  "host \<Rightarrow> env \<Rightarrow> ExecutionRequest \<Rightarrow> string \<Rightarrow> int \<Rightarrow> thrown \<Rightarrow> world
     \<Rightarrow> (thrown + ExecutionResult) \<times> world" where
  "execute_catch h env request execId startTime e w =
     (let (now, w1) = read_clock h w;
          elapsed = now - startTime
      in case get_message e of
           Inl type_error \<Rightarrow> (Inl type_error, w1)
         | Inr message \<Rightarrow>
             (let (prf, w2) =
                    generateProof h env
                      [(''code'', JStr (req_code request)),
                       (''error'', (case message of None \<Rightarrow> JUndefined | Some m \<Rightarrow> JStr m)),
                       (''executionTime'', JNum (Fin (of_int elapsed))),
                       (''executionId'', JStr execId)] w1
              in (Inr \<lparr> res_success = False,
                         res_output = [],
                         res_error = Some (or_str message ''Unknown execution error''),
                         res_executionTime = elapsed,
                         res_memoryUsed = 0,
                         res_proof = prf,
                         res_executionId = execId,
                         res_tier = tier_name (req_tier request) \<rparr>, w2)))"

definition execute ::
  "host \<Rightarrow> env \<Rightarrow> ExecutionRequest \<Rightarrow> world \<Rightarrow> (thrown + ExecutionResult) \<times> world" where
  "execute h env request w =
     (let (execId, w0) = draw_nanoid h 16 w;
          (startTime, w1) = read_clock h w0
      in case execute_try h env request execId startTime w1 of
           (Inr result, w2) \<Rightarrow> (Inr result, w2)
         | (Inl e, w2) \<Rightarrow> execute_catch h env request execId startTime e w2)"

section \<open>Execute endpoint (src/routes/execute.ts)\<close>

subsection \<open>The request schema\<close>

text \<open>
  The zod schema of the request body. A zod parser takes the path of the value and the
  value and returns the parsed value or the issues it found; an issue carries its code,
  the path of the offending value and the message the schema supplies for it (\<open>None\<close>:
  zod's default text). A string runs all of its length checks; an object parses every key
  of its shape and reports the issues of all of them.
\<close>

datatype issue_code = invalid_type | too_small | too_big | invalid_enum_value

record ZodIssue =
  zi_code :: issue_code
  zi_path :: "string list"
  zi_message :: "string option"

datatype string_check = StrMin nat string | StrMax nat string

fun check_string :: "string list \<Rightarrow> string \<Rightarrow> string_check \<Rightarrow> ZodIssue list" where
  "check_string path s (StrMin n msg) =
     (if length s < n then [\<lparr> zi_code = too_small, zi_path = path, zi_message = Some msg \<rparr>] else [])"
| "check_string path s (StrMax n msg) =
     (if length s > n then [\<lparr> zi_code = too_big, zi_path = path, zi_message = Some msg \<rparr>] else [])"

definition z_string :: "string_check list \<Rightarrow> string list \<Rightarrow> jsvalue \<Rightarrow> ZodIssue list + string" where
  "z_string checks path v =
     (case v of
        JStr s \<Rightarrow>
          (case concat (map (check_string path s) checks) of
             [] \<Rightarrow> Inr s
           | i # is \<Rightarrow> Inl (i # is))
      | _ \<Rightarrow> Inl [\<lparr> zi_code = invalid_type, zi_path = path, zi_message = None \<rparr>])"

definition z_enum :: "(string \<times> 'a) list \<Rightarrow> string list \<Rightarrow> jsvalue \<Rightarrow> ZodIssue list + 'a" where
  "z_enum vals path v =
     (case v of
        JStr s \<Rightarrow>
          (case map_of vals s of
             Some x \<Rightarrow> Inr x
           | None \<Rightarrow> Inl [\<lparr> zi_code = invalid_enum_value, zi_path = path, zi_message = None \<rparr>])
      | _ \<Rightarrow> Inl [\<lparr> zi_code = invalid_type, zi_path = path, zi_message = None \<rparr>])"

definition z_number :: "string list \<Rightarrow> jsvalue \<Rightarrow> ZodIssue list + jsnum" where
  "z_number path v =
     (case v of
        JNum x \<Rightarrow>
          (if x = NaN then Inl [\<lparr> zi_code = invalid_type, zi_path = path, zi_message = None \<rparr>]
           else Inr x)
      | _ \<Rightarrow> Inl [\<lparr> zi_code = invalid_type, zi_path = path, zi_message = None \<rparr>])"

definition z_optional ::
  "(string list \<Rightarrow> jsvalue \<Rightarrow> ZodIssue list + 'a) \<Rightarrow> string list \<Rightarrow> jsvalue \<Rightarrow> ZodIssue list + 'a option" where
  "z_optional inner path v =
     (case v of
        JUndefined \<Rightarrow> Inr None
      | _ \<Rightarrow> (case inner path v of Inl is \<Rightarrow> Inl is | Inr x \<Rightarrow> Inr (Some x)))"

fun issues_of :: "ZodIssue list + 'a \<Rightarrow> ZodIssue list" where
  "issues_of (Inl is) = is"
| "issues_of (Inr _) = []"

text \<open>\<open>ExecuteRequestSchema.safeParse(req.body)\<close>.\<close>

definition ExecuteRequestSchema_safeParse :: "jsvalue \<Rightarrow> ZodIssue list + ExecutionRequest" where
  "ExecuteRequestSchema_safeParse b =
     (case b of
        JObj props \<Rightarrow>
          (let c = z_string [StrMin 1 ''Code cannot be empty'', StrMax 10000 ''Code too large'']
                     [''code''] (obj_get props ''code'');
               l = z_enum [(''javascript'', Javascript), (''python'', Python)]
                     [''language''] (obj_get props ''language'');
               t = z_enum [(''basic'', Basic), (''standard'', Standard), (''premium'', Premium)]
                     [''tier''] (obj_get props ''tier'');
               tmo = z_optional z_number [''timeout''] (obj_get props ''timeout'')
           in case (c, l, t, tmo) of
                (Inr c', Inr l', Inr t', Inr tmo') \<Rightarrow>
                  Inr \<lparr> req_code = c', req_language = l', req_tier = t', req_timeout = tmo' \<rparr>
              | _ \<Rightarrow> Inl (issues_of c @ issues_of l @ issues_of t @ issues_of tmo))
      | _ \<Rightarrow> Inl [\<lparr> zi_code = invalid_type, zi_path = [], zi_message = None \<rparr>])"

subsection \<open>The handler\<close>

record x402Payment =
  verified :: bool
  amount :: jsnum
  payer :: string
  transactionHash :: string

record X402Request =
  body :: jsvalue
  x_payment :: "string option"
  x402Payment :: "x402Payment option"

record payment_receipt =
  rc_amount :: jsnum
  rc_payer :: string
  rc_transactionHash :: string
  rc_network :: string
  rc_token :: string

record payment_requirement =
  required_amount :: jsnum
  resource :: string
  payTo :: string
  asset :: string
  network :: string
  scheme :: string

datatype response_body =
    InvalidRequest "ZodIssue list"
  | PaymentStateInvalid
  | Executed ExecutionResult payment_receipt int
  | ExecutionFailed string
  | PaymentRequired string payment_requirement

record response =
  status :: nat
  payload :: response_body

text \<open>
  \<open>executeHandler\<close>: validate the body (400 with the issues), check that the middleware
  left a verified payment (500), run the sandbox and answer 200 with the result, the
  payment and a timestamp. The handler's own \<open>catch\<close> answers 500 with the error's
  message.
\<close>

definition executeHandler ::
  "host \<Rightarrow> env \<Rightarrow> X402Request \<Rightarrow> world \<Rightarrow> (thrown + response) \<times> world" where
  "executeHandler h env req w =
     (case ExecuteRequestSchema_safeParse (body req) of
        Inl issues \<Rightarrow> (Inr \<lparr> status = 400, payload = InvalidRequest issues \<rparr>, w)
      | Inr executionRequest \<Rightarrow>
          (case x402Payment req of
             None \<Rightarrow> (Inr \<lparr> status = 500, payload = PaymentStateInvalid \<rparr>, w)
           | Some p \<Rightarrow>
               if \<not> verified p then (Inr \<lparr> status = 500, payload = PaymentStateInvalid \<rparr>, w)
               else
                 (case execute h env executionRequest w of
                    (Inr result, w1) \<Rightarrow>
                      (let (now, w2) = read_clock h w1
                       in (Inr \<lparr> status = 200,
                                  payload = Executed result
                                    \<lparr> rc_amount = amount p,
                                      rc_payer = payer p,
                                      rc_transactionHash = transactionHash p,
                                      rc_network = BASE_NETWORK_name,
                                      rc_token = X402_CONFIG_paymentToken env \<rparr> now \<rparr>, w2))
                  | (Inl e, w1) \<Rightarrow>
                      (case get_message e of
                         Inl type_error \<Rightarrow> (Inl type_error, w1)
                       | Inr message \<Rightarrow>
                           (Inr \<lparr> status = 500,
                                  payload = ExecutionFailed
                                    (or_str message ''An error occurred during execution'') \<rparr>, w1)))))"

section \<open>The paid route (src/index.ts)\<close>

record payment_options =
  opt_amount :: jsnum
  opt_description :: string

text \<open>
  Modelled from the spec: how the absent middleware finds the request's tier. The tier a
  request body names is the value of its \<open>tier\<close> property when that is one of the three
  tier names.
\<close>

definition body_tier :: "jsvalue \<Rightarrow> tier option" where
  "body_tier b =
     (case b of
        JObj props \<Rightarrow>
          (case obj_get props ''tier'' of
             JStr s \<Rightarrow> map_of [(''basic'', Basic), (''standard'', Standard), (''premium'', Premium)] s
           | _ \<Rightarrow> None)
      | _ \<Rightarrow> None)"

text \<open>
  Modelled from the spec: the conversion of a price to the smallest unit of the asset is
  part of the absent middleware. USDC has six decimal places: the README quotes \<open>20000\<close>
  for the price 0.02 and the quick-start guide \<open>10000\<close> for 0.01.
\<close>

fun smallest_unit :: "jsnum \<Rightarrow> jsnum" where
  "smallest_unit (Fin r) = Fin (r * 1000000)"
| "smallest_unit x = x"

text \<open>
  Modelled from the spec: the payment middleware \<open>requirePayment\<close> of
  src/middleware/x402.ts is not among the sources; only its call in src/index.ts is. By
  the specification (Admission Gate, \<open>ChallengeIssued\<close>; external interfaces) a request
  without payment evidence is answered with the payment-required status and a structured
  payment requirement: the price of the request's tier as the required amount, in the
  smallest unit, the resource path, the payee address, the asset, the network and the
  scheme; this path does no sandbox work. The amount the route was registered with is the
  price asked of a body that names no tier. A request with evidence goes through
  verification and settlement, which either answer the request themselves or hand a
  verified payment to the next handler; they are the parameter \<open>verify\<close>.
\<close>

definition requirePayment ::
  "(string \<Rightarrow> jsnum \<Rightarrow> response + x402Payment) \<Rightarrow> env \<Rightarrow> payment_options
     \<Rightarrow> (X402Request \<Rightarrow> world \<Rightarrow> (thrown + response) \<times> world)
     \<Rightarrow> X402Request \<Rightarrow> world \<Rightarrow> (thrown + response) \<times> world" where
  "requirePayment verify env options next_handler req w =
     (let price = (case body_tier (body req) of
                     Some t \<Rightarrow> tier_price env t
                   | None \<Rightarrow> opt_amount options)
      in case x_payment req of
           None \<Rightarrow>
             (Inr \<lparr> status = 402,
                    payload = PaymentRequired (opt_description options)
                      \<lparr> required_amount = smallest_unit price,
                        resource = ''/api/execute'',
                        payTo = WALLET_ADDRESSES_base env,
                        asset = BASE_NETWORK_usdcAddress env,
                        network = BASE_NETWORK_name,
                        scheme = ''eip3009'' \<rparr> \<rparr>, w)
         | Some evidence \<Rightarrow>
             (case verify evidence (smallest_unit price) of
                Inl rejection \<Rightarrow> (Inr rejection, w)
              | Inr payment \<Rightarrow> next_handler (req\<lparr>x402Payment := Some payment\<rparr>) w))"

text \<open>
  \<open>app.post('/api/execute', requirePayment({ amount: CONFIG.pricing.standard, ... }),
  executeHandler)\<close>.
\<close>

definition post_api_execute ::
  "host \<Rightarrow> env \<Rightarrow> (string \<Rightarrow> jsnum \<Rightarrow> response + x402Payment) \<Rightarrow> X402Request \<Rightarrow> world
     \<Rightarrow> (thrown + response) \<times> world" where
  "post_api_execute h env verify req w =
     requirePayment verify env
       \<lparr> opt_amount = standard (PRICING env),
         opt_description = ''Code execution in secure sandbox'' \<rparr>
       (executeHandler h env) req w"

section \<open>Reference notions and sample inputs\<close>

text \<open>
  The constraints on the fields of the request body as the specification states them,
  read off the body itself: \<open>code\<close> a string of bounded length (1 to 10000 characters),
  \<open>language\<close> and \<open>tier\<close> one of the declared names, \<open>timeout\<close> absent or a number.
\<close>

definition field_violated :: "jsrecord \<Rightarrow> string \<Rightarrow> bool" where
  "field_violated props f =
     (if f = ''code'' then
        (case obj_get props ''code'' of JStr s \<Rightarrow> length s < 1 \<or> 10000 < length s | _ \<Rightarrow> True)
      else if f = ''language'' then
        (case obj_get props ''language'' of
           JStr s \<Rightarrow> s \<notin> set [''javascript'', ''python'']
         | _ \<Rightarrow> True)
      else if f = ''tier'' then
        (case obj_get props ''tier'' of
           JStr s \<Rightarrow> s \<notin> set [''basic'', ''standard'', ''premium'']
         | _ \<Rightarrow> True)
      else if f = ''timeout'' then
        (case obj_get props ''timeout'' of JUndefined \<Rightarrow> False | JNum x \<Rightarrow> False | _ \<Rightarrow> True)
      else False)"

text \<open>
  A serialiser in the manner of \<open>JSON.stringify\<close>: strings are quoted and escaped,
  integers print their digits, a property whose value is \<open>undefined\<close> is left out of an
  object and an \<open>undefined\<close> element of an array prints as \<open>null\<close>. Numbers that are not
  integers print as \<open>fmt\<close> prints them.
\<close>

definition escape_char :: "char \<Rightarrow> string" where
  "escape_char c =
     (if c = CHR 0x22 then [CHR 0x5C, CHR 0x22]
      else if c = CHR 0x5C then [CHR 0x5C, CHR 0x5C]
      else if c = CHR 0x08 then [CHR 0x5C, CHR ''b'']
      else if c = CHR 0x0C then [CHR 0x5C, CHR ''f'']
      else if c = CHR 0x0A then [CHR 0x5C, CHR ''n'']
      else if c = CHR 0x0D then [CHR 0x5C, CHR ''r'']
      else if c = CHR 0x09 then [CHR 0x5C, CHR ''t'']
      else if (of_char c :: nat) < 32 then
        [CHR 0x5C, CHR ''u'', CHR ''0'', CHR ''0'',
         hex_char ((of_char c :: nat) div 16), hex_char ((of_char c :: nat) mod 16)]
      else [c])"

definition quote_string :: "string \<Rightarrow> string" where
  "quote_string s = [CHR 0x22] @ concat (map escape_char s) @ [CHR 0x22]"

fun join_with :: "string \<Rightarrow> string list \<Rightarrow> string" where
  "join_with sep [] = []"
| "join_with sep [x] = x"
| "join_with sep (x # y # ys) = x @ sep @ join_with sep (y # ys)"

fun stringify :: "(rat \<Rightarrow> string) \<Rightarrow> jsvalue \<Rightarrow> string" where
  "stringify fmt JUndefined = ''null''"
| "stringify fmt JNull = ''null''"
| "stringify fmt (JBool b) = (if b then ''true'' else ''false'')"
| "stringify fmt (JNum x) =
     (case x of
        Fin r \<Rightarrow> if of_int \<lfloor>r\<rfloor> = r \<and> \<bar>r\<bar> \<le> 2 ^ 53 then show_int \<lfloor>r\<rfloor> else fmt r
      | _ \<Rightarrow> ''null'')"
| "stringify fmt (JStr s) = quote_string s"
| "stringify fmt (JArr vs) = ''['' @ join_with '','' (map (stringify fmt) vs) @ '']''"
| "stringify fmt (JObj ps) =
     ''{'' @ join_with '',''
              (map (\<lambda>(k, v). quote_string k @ '':'' @ stringify fmt v)
                 (filter (\<lambda>(k, v). v \<noteq> JUndefined) ps)) @ ''}''"

text \<open>A checksum in the place of SHA-256: the sum of the character codes.\<close>

definition checksum :: "string \<Rightarrow> 256 word" where
  "checksum s = of_nat (sum_list (map of_char s))"

text \<open>
  A host on which every library call succeeds: the script logs \<open>4\<close>, the heap statistics
  report 204800 bytes, the clock advances one millisecond per reading. It serialises
  with \<open>stringify\<close> and hashes with the checksum.
\<close>

definition sample_host :: host where
  "sample_host =
     \<lparr> sha256 = checksum,
       JSON_stringify = stringify (\<lambda>r. ''0.5''),
       double_toString = (\<lambda>r. ''0.5''),
       Date_now = (\<lambda>k. 1700000000000 + int k),
       nanoid = (\<lambda>k n. replicate n (CHR ''A'')),
       ivm_new = (\<lambda>i m. None),
       ivm_createContext = (\<lambda>i. None),
       ivm_global_set = (\<lambda>i. None),
       ivm_compileScript = (\<lambda>i c. None),
       ivm_run = (\<lambda>i c t. Completed [''4'']),
       ivm_getHeapStatistics = (\<lambda>i. Inr 204800) \<rparr>"

text \<open>The sample host with a script that fails with the given value of its own.\<close>

definition failing_host :: "thrown \<Rightarrow> host" where
  "failing_host e = sample_host\<lparr> ivm_run := (\<lambda>i c t. Errored e) \<rparr>"

text \<open>
  The sample host with a run that the memory limit ends, and with a run that the timeout
  ends; the messages are the library's.
\<close>

definition memory_fault_host :: host where
  "memory_fault_host =
     sample_host\<lparr> ivm_run := (\<lambda>i c t. MemoryExceeded
       (new_Error ''Isolate was disposed during execution due to memory limit'')) \<rparr>"

definition timed_out_host :: host where
  "timed_out_host =
     sample_host\<lparr> ivm_run := (\<lambda>i c t. TimedOut (new_Error ''Script execution timed out.'')) \<rparr>"

text \<open>The data \<open>execute\<close> hashes for a successful run of the sample request.\<close>

definition sample_data :: jsrecord where
  "sample_data =
     [(''code'', JStr ''console.log(2 + 2)''),
      (''output'', JStr ''4''),
      (''executionTime'', JNum (Fin 3)),
      (''executionId'', JStr ''AAAAAAAAAAAAAAAA'')]"

definition sample_request :: "tier \<Rightarrow> jsnum option \<Rightarrow> ExecutionRequest" where
  "sample_request t tmo =
     \<lparr> req_code = ''console.log(2 + 2)'', req_language = Javascript, req_tier = t,
       req_timeout = tmo \<rparr>"

definition initial_world :: world where
  "initial_world = \<lparr> ticks = 0, ids = 0, created = 0, disposed = [] \<rparr>"

text \<open>
  The request of the quick-start guide: code, language and tier \<open>basic\<close>, no payment
  header.
\<close>

definition unpaid_basic_request :: X402Request where
  "unpaid_basic_request =
     \<lparr> body = JObj [(''code'', JStr ''console.log(2 + 2)''),
                     (''language'', JStr ''javascript''),
                     (''tier'', JStr ''basic'')],
       x_payment = None,
       x402Payment = None \<rparr>"

text \<open>A body that is wrong in three fields: empty code, unknown language, unknown tier.\<close>

definition bad_body :: jsrecord where
  "bad_body = [(''code'', JStr []), (''language'', JStr ''ruby''), (''tier'', JStr ''gold'')]"

text \<open>
  The world in which the \<open>try\<close> block of \<open>execute\<close> starts: one identifier drawn and
  the clock read once.
\<close>

definition after_start :: "world \<Rightarrow> world" where
  "after_start w = w\<lparr>ids := Suc (ids w), ticks := Suc (ticks w)\<rparr>"

text \<open>
  The message of the error that leaves the \<open>catch\<close> block of \<open>executeJavaScript\<close>, given
  the message of the error that entered it.
\<close>

definition surfaced :: "host \<Rightarrow> jsnum \<Rightarrow> nat \<Rightarrow> string option \<Rightarrow> string option" where
  "surfaced h t m msg =
     (if opt_includes msg ''timeout'' then
        Some (''Execution timeout: code ran longer than '' @ number_toString h t @ ''ms'')
      else if opt_includes msg ''memory'' then
        Some (''Memory limit exceeded: maximum '' @ show_nat m @ ''MB'')
      else msg)"

section \<open>Tier policy: the order of prices and ceilings\<close>

lemma PRICING_default:
  assumes "env ''BASIC_EXECUTION_PRICE'' = None" "env ''STANDARD_EXECUTION_PRICE'' = None"
    "env ''PREMIUM_EXECUTION_PRICE'' = None"
  shows "PRICING env = \<lparr> basic = Fin (1 / 100), standard = Fin (1 / 50), premium = Fin (1 / 20) \<rparr>"
  using assms
  by (simp add: PRICING_def parseFloat_def parse_unsigned_def is_digit_def is_space_def
      digits_val_def parse_exponent_def scale10_def)

text \<open>
  C3, as stated: for every pair of tiers \<open>t1 < t2\<close> the table has
  \<open>price t1 \<le> price t2\<close>. The prices are read from the environment without any check, so
  the statement fails for a deployment that sets \<open>BASIC_EXECUTION_PRICE=0.10\<close> and leaves
  the other two prices at their defaults: basic then costs 0.10 and standard 0.02.
\<close>

theorem tier_table_counterexample:
  "tier_less Basic Standard \<and>
   \<not> js_le (tier_price [''BASIC_EXECUTION_PRICE'' \<mapsto> ''0.10''] Basic)
            (tier_price [''BASIC_EXECUTION_PRICE'' \<mapsto> ''0.10''] Standard)"
  by (simp add: tier_less_def PRICING_def parseFloat_def parse_unsigned_def is_digit_def is_space_def
      digits_val_def parse_exponent_def scale10_def)

text \<open>
  C3, amended: for every pair of tiers \<open>t1 < t2\<close> in the order basic, standard, premium,
  the timeout ceiling and the memory ceiling of \<open>t1\<close> are at most those of \<open>t2\<close>, whatever
  the configuration; and \<open>price t1 \<le> price t2\<close> when no price variable is set in the
  environment, that is for the default prices 0.01, 0.02 and 0.05.
\<close>

theorem tier_table_monotone:
  assumes "tier_less t1 t2"
  shows "timeout (TIER_LIMITS t1) \<le> timeout (TIER_LIMITS t2) \<and>
         memory (TIER_LIMITS t1) \<le> memory (TIER_LIMITS t2) \<and>
         (env ''BASIC_EXECUTION_PRICE'' = None \<and> env ''STANDARD_EXECUTION_PRICE'' = None \<and>
          env ''PREMIUM_EXECUTION_PRICE'' = None \<longrightarrow>
            js_le (tier_price env t1) (tier_price env t2))"
proof (intro conjI impI)
  show "timeout (TIER_LIMITS t1) \<le> timeout (TIER_LIMITS t2)"
    using assms by (cases t1; cases t2) (simp_all add: tier_less_def)
  show "memory (TIER_LIMITS t1) \<le> memory (TIER_LIMITS t2)"
    using assms by (cases t1; cases t2) (simp_all add: tier_less_def)
next
  assume "env ''BASIC_EXECUTION_PRICE'' = None \<and> env ''STANDARD_EXECUTION_PRICE'' = None \<and>
          env ''PREMIUM_EXECUTION_PRICE'' = None"
  then have "PRICING env = \<lparr> basic = Fin (1 / 100), standard = Fin (1 / 50), premium = Fin (1 / 20) \<rparr>"
    by (simp add: PRICING_default)
  then show "js_le (tier_price env t1) (tier_price env t2)"
    using assms by (cases t1; cases t2) (simp_all add: tier_less_def)
qed

theorem tier_table_monotone_witness:
  "tier_less Basic Premium \<and>
   timeout (TIER_LIMITS Basic) \<le> timeout (TIER_LIMITS Premium) \<and>
   memory (TIER_LIMITS Basic) \<le> memory (TIER_LIMITS Premium) \<and>
   js_le (tier_price Map.empty Basic) (tier_price Map.empty Premium)"
  using tier_table_monotone [of Basic Premium Map.empty]
  by (simp add: tier_less_def)

section \<open>The effective timeout\<close>

lemma Math_min_le_right: "b \<noteq> NaN \<Longrightarrow> Math_min a b = NaN \<or> js_le (Math_min a b) b"
  by (cases a; cases b) auto

lemma or_num_not_NaN: "d \<noteq> NaN \<Longrightarrow> or_num x d \<noteq> NaN"
  by (cases x) (auto elim: truthy_num.elims)

lemma Math_min_not_NaN: "a \<noteq> NaN \<Longrightarrow> b \<noteq> NaN \<Longrightarrow> Math_min a b \<noteq> NaN"
  by (cases a; cases b) auto


text \<open>
  C4, as stated: the effective timeout is the minimum of the caller-supplied timeout and
  the tier's ceiling. A caller timeout of \<open>0\<close> on tier basic is a request where it is not:
  the minimum is \<open>0\<close>, the run gets the ceiling of 10000 ms.
\<close>

theorem effective_timeout_counterexample:
  "req_timeout (sample_request Basic (Some (Fin 0))) = Some (Fin 0) \<and>
   effective_timeout (sample_request Basic (Some (Fin 0))) = Fin 10000 \<and>
   Math_min (Fin 0) (timeout_ceiling Basic) = Fin 0"
  by (simp add: effective_timeout_def sample_request_def timeout_ceiling_def)

text \<open>
  C4, amended: for every execution request the effective timeout never exceeds the
  ceiling of the requested tier, and when the caller supplies a timeout other than \<open>0\<close>
  (and other than \<open>NaN\<close>) the effective timeout is the minimum of that timeout and the
  ceiling, so a larger one is clamped to the ceiling.
\<close>

theorem effective_timeout_clamped:
  "js_le (effective_timeout r) (timeout_ceiling (req_tier r)) \<and>
   (req_timeout r = Some t \<and> truthy_num t \<longrightarrow>
      effective_timeout r = Math_min t (timeout_ceiling (req_tier r)))"
proof (intro conjI impI)
  let ?c = "timeout_ceiling (req_tier r)"
  have c: "?c \<noteq> NaN" by (simp add: timeout_ceiling_def)
  have "or_num (req_timeout r) ?c \<noteq> NaN" using c by (rule or_num_not_NaN)
  then have "Math_min (or_num (req_timeout r) ?c) ?c \<noteq> NaN"
    using c by (rule Math_min_not_NaN)
  with Math_min_le_right [OF c, of "or_num (req_timeout r) ?c"]
  show "js_le (effective_timeout r) ?c"
    by (simp add: effective_timeout_def)
next
  assume "req_timeout r = Some t \<and> truthy_num t"
  then show "effective_timeout r = Math_min t (timeout_ceiling (req_tier r))"
    by (simp add: effective_timeout_def)
qed

theorem effective_timeout_clamped_witness:
  "req_timeout (sample_request Basic (Some (Fin 99999))) = Some (Fin 99999) \<and>
   truthy_num (Fin 99999) \<and>
   effective_timeout (sample_request Basic (Some (Fin 99999))) = Fin 10000 \<and>
   js_le (effective_timeout (sample_request Basic (Some (Fin 99999)))) (timeout_ceiling Basic)"
  using effective_timeout_clamped [of "sample_request Basic (Some (Fin 99999))" "Fin 99999"]
  by (simp add: sample_request_def timeout_ceiling_def)



section \<open>The proof generator\<close>

lemma digest_hex_length: "length (digest_hex d) = 64"
  by (simp add: digest_hex_def)

lemma digest_hex_last: "last (digest_hex d) = hex_char (unat (d AND 15))"
  by (simp add: digest_hex_def last_map last_rev)

lemma generateProof_length: "length (fst (generateProof h env d w)) = 64"
  by (simp add: generateProof_def split_beta Let_def digest_hex_length)

lemma generateProof_frame:
  "created (snd (generateProof h env d w)) = created w"
  "disposed (snd (generateProof h env d w)) = disposed w"
  by (simp_all add: generateProof_def read_clock_def split_beta Let_def)

text \<open>
  The digest \<open>generateProof\<close> returns is over the data and the reading of the clock it
  takes itself, and \<open>verifyProof\<close> compares the proof it is given with the digest of a
  call of its own, which reads the clock again.
\<close>

lemma generateProof_digest:
  "fst (generateProof h env x w) =
     digest_hex (sha256 h (JSON_stringify h
       (JObj (obj_set (obj_set (obj_set x ''timestamp'' (JNum (Fin (of_int (Date_now h (ticks w))))))
                         ''network'' (JStr BASE_NETWORK_name))
                ''executor'' (JStr (WALLET_ADDRESSES_base env))))))"
  "ticks (snd (generateProof h env x w)) = Suc (ticks w)"
  by (simp_all add: generateProof_def read_clock_def split_beta Let_def)

lemma verifyProof_compares:
  "fst (verifyProof h env p x w) = (p = fst (generateProof h env x w))"
  by (simp add: verifyProof_def split_beta Let_def)

text \<open>
  So a proof is accepted right after it was generated exactly when the digest over the
  later reading of the clock is the digest over the earlier one.
\<close>

lemma verifyProof_after_generateProof:
  "fst (verifyProof h env (fst (generateProof h env x w)) x (snd (generateProof h env x w))) =
     (digest_hex (sha256 h (JSON_stringify h
        (JObj (obj_set (obj_set (obj_set x ''timestamp'' (JNum (Fin (of_int (Date_now h (ticks w))))))
                          ''network'' (JStr BASE_NETWORK_name))
                 ''executor'' (JStr (WALLET_ADDRESSES_base env))))))
      = digest_hex (sha256 h (JSON_stringify h
        (JObj (obj_set (obj_set (obj_set x ''timestamp'' (JNum (Fin (of_int (Date_now h (Suc (ticks w)))))))
                          ''network'' (JStr BASE_NETWORK_name))
                 ''executor'' (JStr (WALLET_ADDRESSES_base env)))))))"
  by (simp add: verifyProof_compares generateProof_digest)

lemma show_int_samples:
  "show_int 1700000000000 = ''1700000000000''"
  "show_int 1700000000001 = ''1700000000001''"
  "show_int 3 = ''3''"
  by (simp_all add: show_int_def show_nat.simps digit_char_def)

lemma sample_checksums:
  "sha256 sample_host (JSON_stringify sample_host
     (JObj (obj_set (obj_set (obj_set sample_data ''timestamp'' (JNum (Fin (of_int 1700000000000))))
                       ''network'' (JStr BASE_NETWORK_name))
              ''executor'' (JStr (WALLET_ADDRESSES_base Map.empty))))) = 14413"
  "sha256 sample_host (JSON_stringify sample_host
     (JObj (obj_set (obj_set (obj_set sample_data ''timestamp'' (JNum (Fin (of_int 1700000000001))))
                       ''network'' (JStr BASE_NETWORK_name))
              ''executor'' (JStr (WALLET_ADDRESSES_base Map.empty))))) = 14414"
  by (simp_all add: sample_host_def checksum_def sample_data_def BASE_NETWORK_name_def
      WALLET_ADDRESSES_base_def quote_string_def escape_char_def show_int_samples)

text \<open>
  C1, evaluated on the code: a proof is generated over the data of a successful run and
  verified at once over the same data, on a host whose clock moves on by one millisecond
  between the two calls. The proof was computed with the timestamp 1700000000000; the
  verification computes its digest with the timestamp 1700000000001, the two digests
  differ, and \<open>verifyProof\<close> returns false where the claim says true.
\<close>

theorem verifyProof_rejects_generated_proof:
  "Date_now sample_host (ticks initial_world) = 1700000000000 \<and>
   Date_now sample_host (ticks (snd (generateProof sample_host Map.empty sample_data initial_world)))
     = 1700000000001 \<and>
   \<not> fst (verifyProof sample_host Map.empty
            (fst (generateProof sample_host Map.empty sample_data initial_world))
            sample_data
            (snd (generateProof sample_host Map.empty sample_data initial_world)))"
proof -
  have t0: "Date_now sample_host (ticks initial_world) = 1700000000000"
    by (simp add: sample_host_def initial_world_def)
  have t1: "Date_now sample_host (Suc (ticks initial_world)) = 1700000000001"
    by (simp add: sample_host_def initial_world_def)
  have "last (digest_hex (14413 :: 256 word)) \<noteq> last (digest_hex (14414 :: 256 word))"
    by (simp add: digest_hex_last hex_char_def)
  then have "digest_hex (14413 :: 256 word) \<noteq> digest_hex (14414 :: 256 word)"
    by auto
  moreover have "fst (verifyProof sample_host Map.empty
            (fst (generateProof sample_host Map.empty sample_data initial_world))
            sample_data
            (snd (generateProof sample_host Map.empty sample_data initial_world)))
        = (digest_hex (14413 :: 256 word) = digest_hex (14414 :: 256 word))"
    by (simp only: verifyProof_after_generateProof t0 t1 sample_checksums)
  moreover have "Date_now sample_host
        (ticks (snd (generateProof sample_host Map.empty sample_data initial_world)))
        = 1700000000001"
    by (simp only: generateProof_digest t1)
  ultimately show ?thesis using t0 by simp
qed

section \<open>The isolation engine: disposal\<close>

lemma dispose_frame:
  "created (snd (dispose i w)) = created w"
  "set (disposed (snd (dispose i w))) = insert i (set (disposed w))"
  by (auto simp: dispose_def mark_disposed_def)

lemma run_in_isolate_frame:
  "created (snd (run_in_isolate h i code t w)) = created w"
  "set (disposed w) \<subseteq> set (disposed (snd (run_in_isolate h i code t w)))"
  "set (disposed (snd (run_in_isolate h i code t w))) \<subseteq> insert i (set (disposed w))"
  by (auto simp: run_in_isolate_def Let_def dispose_def mark_disposed_def
      split: outcome.splits prod.splits if_splits)

lemma run_in_isolate_returned_disposed:
  "fst (run_in_isolate h i code t w) = Inr r \<Longrightarrow> i \<in> set (disposed (snd (run_in_isolate h i code t w)))"
  by (auto simp: run_in_isolate_def Let_def dispose_def mark_disposed_def
      split: outcome.splits prod.splits if_splits)

lemma executeJavaScript_not_created:
  "ivm_new h (created w) m = Some msg \<Longrightarrow> executeJavaScript h code t m eid w = (Inl (new_Error msg), w)"
  by (simp add: executeJavaScript_def)

lemma executeJavaScript_frame:
  assumes "ivm_new h (created w) m = None"
  shows "created (snd (executeJavaScript h code t m eid w)) = Suc (created w)"
    and "set (disposed (snd (executeJavaScript h code t m eid w))) = insert (created w) (set (disposed w))"
proof -
  let ?w1 = "w\<lparr>created := Suc (created w)\<rparr>"
  let ?run = "run_in_isolate h (created w) code t ?w1"
  obtain x w2 where r: "?run = (x, w2)" by (cases ?run)
  from run_in_isolate_frame [where h = h and i = "created w" and code = code and t = t and w = ?w1] r
  have f: "created w2 = Suc (created w)" "set (disposed w) \<subseteq> set (disposed w2)"
    "set (disposed w2) \<subseteq> insert (created w) (set (disposed w))"
    by simp_all
  show "created (snd (executeJavaScript h code t m eid w)) = Suc (created w)"
    using assms r f(1) dispose_frame(1) [where i = "created w" and w = w2]
    by (cases x) (auto simp: executeJavaScript_def Let_def split: prod.splits option.splits sum.splits)
  show "set (disposed (snd (executeJavaScript h code t m eid w))) = insert (created w) (set (disposed w))"
  proof (cases x)
    case (Inr v)
    with r run_in_isolate_returned_disposed [where h = h and i = "created w" and code = code and t = t and w = ?w1 and r = v]
    have "created w \<in> set (disposed w2)" by simp
    with assms r Inr f show ?thesis by (auto simp: executeJavaScript_def Let_def)
  next
    case (Inl e)
    have "snd (executeJavaScript h code t m eid w) = snd (dispose (created w) w2)"
      using assms r Inl
      by (auto simp: executeJavaScript_def Let_def split: prod.splits option.splits sum.splits)
    with dispose_frame(2) [where i = "created w" and w = w2] f show ?thesis by auto
  qed
qed

lemma live_after_create_dispose:
  assumes "created w' = Suc (created w)"
    and "set (disposed w') = insert (created w) (set (disposed w))"
  shows "live_isolates w' = live_isolates w"
  using assms by (auto simp: live_isolates_def intro: filter_cong)

text \<open>
  C5: every call of the isolation engine disposes the isolate it created, on every exit
  path. Whatever the library calls do and whether \<open>executeJavaScript\<close> returns or throws,
  the isolates alive after the call are those alive before it, and every isolate created
  during the call is among the disposed ones.
\<close>

theorem executeJavaScript_disposes:
  "live_isolates (snd (executeJavaScript h code t m eid w)) = live_isolates w \<and>
   set [created w ..< created (snd (executeJavaScript h code t m eid w))]
     \<subseteq> set (disposed (snd (executeJavaScript h code t m eid w)))"
proof (cases "ivm_new h (created w) m")
  case (Some msg)
  then show ?thesis by (simp add: executeJavaScript_not_created)
next
  case None
  from executeJavaScript_frame [OF None, where code = code and t = t and eid = eid]
  show ?thesis by (simp add: live_after_create_dispose)
qed

section \<open>Outcomes of \<open>execute\<close>\<close>

lemma executeJavaScript_live:
  "live_isolates (snd (executeJavaScript h code t m eid w)) = live_isolates w"
proof (cases "ivm_new h (created w) m")
  case (Some msg)
  then show ?thesis by (simp add: executeJavaScript_not_created)
next
  case None
  from executeJavaScript_frame [OF None, where code = code and t = t and eid = eid]
  show ?thesis by (simp add: live_after_create_dispose)
qed

lemma or_str_nonempty: "d \<noteq> [] \<Longrightarrow> or_str m d \<noteq> []"
  by (cases m) auto

text \<open>What the try block throws, as a function of the calls and of the world.\<close>

lemma run_in_isolate_failed:
  assumes "isolate_calls h i code t = Errored e \<or> isolate_calls h i code t = TimedOut e"
  shows "run_in_isolate h i code t w = (Inl e, w)"
  using assms by (auto simp: run_in_isolate_def Let_def)

lemma run_in_isolate_memory:
  assumes "isolate_calls h i code t = MemoryExceeded e"
  shows "run_in_isolate h i code t w = (Inl e, mark_disposed i w)"
  using assms by (simp add: run_in_isolate_def Let_def)

lemma executeJavaScript_throws_object:
  assumes "fst (executeJavaScript h code t m eid w) = Inl e"
  shows "\<exists>msg. e = Thrown msg"
proof (cases "ivm_new h (created w) m")
  case (Some msg)
  with assms show ?thesis by (auto simp: executeJavaScript_def)
next
  case None
  let ?w1 = "w\<lparr>created := Suc (created w)\<rparr>"
  obtain r w2 where r: "run_in_isolate h (created w) code t ?w1 = (r, w2)"
    by (cases "run_in_isolate h (created w) code t ?w1")
  show ?thesis
  proof (cases r)
    case (Inr x)
    with assms None r show ?thesis by (simp add: executeJavaScript_def)
  next
    case (Inl e')
    obtain d w3 where d: "dispose (created w) w2 = (d, w3)" by (cases "dispose (created w) w2")
    show ?thesis
    proof (cases d)
      case (Some msg)
      with assms None r Inl d show ?thesis by (auto simp: executeJavaScript_def Let_def)
    next
      case no_throw: None
      with assms None r Inl d show ?thesis
        by (cases e') (auto simp: executeJavaScript_def Let_def split: if_splits)
    qed
  qed
qed

text \<open>
  An error of the calls that is not a memory fault, on an isolate that was not disposed
  before: the \<open>catch\<close> block disposes the isolate and the error leaves the engine with
  the message \<open>surfaced\<close> gives it.
\<close>

lemma executeJavaScript_failed:
  assumes "ivm_new h (created w) m = None"
    and "created w \<notin> set (disposed w)"
    and "isolate_calls h (created w) code t = Errored (Thrown msg)
         \<or> isolate_calls h (created w) code t = TimedOut (Thrown msg)"
  shows "fst (executeJavaScript h code t m eid w) = Inl (Thrown (surfaced h t m msg))"
proof -
  let ?w1 = "w\<lparr>created := Suc (created w)\<rparr>"
  from run_in_isolate_failed [OF assms(3), where w = ?w1]
  have r: "run_in_isolate h (created w) code t ?w1 = (Inl (Thrown msg), ?w1)" .
  from assms(2) have d: "dispose (created w) ?w1 = (None, mark_disposed (created w) ?w1)"
    by (simp add: dispose_def)
  from assms(1) r d show ?thesis
    by (simp add: executeJavaScript_def Let_def surfaced_def)
qed

text \<open>
  A memory fault: the library has disposed the isolate, the \<open>dispose\<close> of the \<open>catch\<close>
  block throws, and that error is the one that leaves the engine.
\<close>

lemma executeJavaScript_memory_fault:
  assumes "ivm_new h (created w) m = None"
    and "isolate_calls h (created w) code t = MemoryExceeded e"
  shows "fst (executeJavaScript h code t m eid w) = Inl (new_Error ''Isolate is already disposed'')"
proof -
  let ?w1 = "w\<lparr>created := Suc (created w)\<rparr>"
  from run_in_isolate_memory [OF assms(2), where w = ?w1]
  have r: "run_in_isolate h (created w) code t ?w1 = (Inl e, mark_disposed (created w) ?w1)" .
  have d: "dispose (created w) (mark_disposed (created w) ?w1)
             = (Some ''Isolate is already disposed'', mark_disposed (created w) ?w1)"
    by (simp add: dispose_def mark_disposed_def)
  from assms(1) r d show ?thesis
    by (simp add: executeJavaScript_def Let_def)
qed

text \<open>A value the engine returns carries the heap size its isolate reported.\<close>

lemma executeJavaScript_returned:
  assumes "executeJavaScript h code t m eid w = (Inr (out, used), w1)"
  shows "ivm_getHeapStatistics h (created w) = Inr used"
proof (cases "ivm_new h (created w) m")
  case (Some msg)
  with assms show ?thesis by (simp add: executeJavaScript_def)
next
  case None
  let ?w1 = "w\<lparr>created := Suc (created w)\<rparr>"
  obtain x w2 where r: "run_in_isolate h (created w) code t ?w1 = (x, w2)"
    by (cases "run_in_isolate h (created w) code t ?w1")
  show ?thesis
  proof (cases x)
    case (Inl e)
    with assms None r show ?thesis
      by (auto simp: executeJavaScript_def Let_def split: if_splits prod.splits option.splits sum.splits)
  next
    case (Inr ou)
    with assms None r have "run_in_isolate h (created w) code t ?w1 = (Inr (out, used), w2)"
      by (simp add: executeJavaScript_def Let_def)
    then have "\<exists>o'. isolate_calls h (created w) code t = Completed (o', used)"
      by (auto simp: run_in_isolate_def Let_def split: outcome.splits prod.splits option.splits)
    then show ?thesis
      by (auto simp: isolate_calls_def split: option.splits outcome.splits sum.splits)
  qed
qed

text \<open>The three ways through the \<open>try\<close> block of \<open>execute\<close>.\<close>

lemma execute_try_cases:
  obtains
    (early) m where "execute_try h env r eid st w = (Inl (new_Error m), w)"
  | (thrown) e w1 where
      "executeJavaScript h (req_code r) (effective_timeout r)
         (memory (TIER_LIMITS (req_tier r))) eid w = (Inl e, w1)"
      "execute_try h env r eid st w = (Inl e, w1)"
  | (returned) out used w1 res w3 where
      "executeJavaScript h (req_code r) (effective_timeout r)
         (memory (TIER_LIMITS (req_tier r))) eid w = (Inr (out, used), w1)"
      "execute_try h env r eid st w = (Inr res, w3)"
      "res_success res" "res_output res = out" "res_error res = None"
      "res_memoryUsed res = used" "res_executionId res = eid"
      "res_tier res = tier_name (req_tier r)" "length (res_proof res) = 64"
      "created w3 = created w1" "disposed w3 = disposed w1"
proof (cases "language_name (req_language r) \<in> set (SANDBOX_LIMITS_allowedLanguages env)")
  case False
  then show ?thesis using early by (simp add: execute_try_def)
next
  case allowed: True
  show ?thesis
  proof (cases "req_language r = Javascript")
    case False
    with allowed show ?thesis using early by (simp add: execute_try_def)
  next
    case js: True
    let ?js = "executeJavaScript h (req_code r) (effective_timeout r)
                 (memory (TIER_LIMITS (req_tier r))) eid w"
    obtain x w1 where run: "?js = (x, w1)" by (cases ?js)
    show ?thesis
    proof (cases x)
      case (Inl e)
      with allowed js run have "execute_try h env r eid st w = (Inl e, w1)"
        by (simp add: execute_try_def)
      with run Inl show ?thesis using thrown by simp
    next
      case (Inr ou)
      obtain out used where ou: "ou = (out, used)" by (cases ou)
      obtain res w3 where t: "execute_try h env r eid st w = (res, w3)"
        by (cases "execute_try h env r eid st w")
      from allowed js run Inr ou t
      have "\<exists>v. res = Inr v \<and> res_success v \<and> res_output v = out \<and> res_error v = None \<and>
              res_memoryUsed v = used \<and> res_executionId v = eid \<and>
              res_tier v = tier_name (req_tier r) \<and> length (res_proof v) = 64"
        by (auto simp: execute_try_def split_beta Let_def generateProof_length)
      then obtain v where "res = Inr v" "res_success v" "res_output v = out" "res_error v = None"
        "res_memoryUsed v = used" "res_executionId v = eid"
        "res_tier v = tier_name (req_tier r)" "length (res_proof v) = 64"
        by blast
      moreover from allowed js run Inr ou t
      have "created w3 = created w1" "disposed w3 = disposed w1"
        by (auto simp: execute_try_def split_beta Let_def generateProof_frame read_clock_def)
      ultimately show ?thesis using run Inr ou t returned by simp
    qed
  qed
qed

text \<open>The \<open>catch\<close> block of \<open>execute\<close> on an error that is an object.\<close>

lemma execute_catch_result:
  "\<exists>res w'. execute_catch h env r eid st (Thrown msg) w = (Inr res, w') \<and>
     \<not> res_success res \<and> res_output res = [] \<and>
     res_error res = Some (or_str msg ''Unknown execution error'') \<and>
     res_memoryUsed res = 0 \<and>
     res_tier res = tier_name (req_tier r) \<and> res_executionId res = eid \<and>
     length (res_proof res) = 64"
  by (simp add: execute_catch_def split_beta Let_def generateProof_length)

lemma execute_returned:
  assumes "execute_try h env r (nanoid h (ids w) 16) (Date_now h (ticks w)) (after_start w)
             = (Inr res, w2)"
  shows "execute h env r w = (Inr res, w2)"
  using assms
  by (simp add: execute_def split_beta Let_def draw_nanoid_def read_clock_def after_start_def)

lemma execute_caught:
  assumes "execute_try h env r (nanoid h (ids w) 16) (Date_now h (ticks w)) (after_start w)
             = (Inl e, w2)"
  shows "execute h env r w =
           execute_catch h env r (nanoid h (ids w) 16) (Date_now h (ticks w)) e w2"
  using assms
  by (simp add: execute_def split_beta Let_def draw_nanoid_def read_clock_def after_start_def)

text \<open>
  \<open>execute\<close> always returns a result: a failure built by its \<open>catch\<close> block, or the
  success built from what the engine returned.
\<close>

lemma execute_outcome:
  obtains
    (failure) msg res w' where
      "execute h env r w = (Inr res, w')"
      "\<not> res_success res" "res_output res = []"
      "res_error res = Some (or_str msg ''Unknown execution error'')"
      "res_memoryUsed res = 0"
      "res_tier res = tier_name (req_tier r)"
      "res_executionId res = nanoid h (ids w) 16"
      "length (res_proof res) = 64"
  | (success) out used w1 res w' where
      "executeJavaScript h (req_code r) (effective_timeout r)
         (memory (TIER_LIMITS (req_tier r))) (nanoid h (ids w) 16) (after_start w)
         = (Inr (out, used), w1)"
      "execute h env r w = (Inr res, w')"
      "res_success res" "res_output res = out" "res_error res = None"
      "res_memoryUsed res = used"
      "res_tier res = tier_name (req_tier r)"
      "res_executionId res = nanoid h (ids w) 16"
      "length (res_proof res) = 64"
proof -
  let ?eid = "nanoid h (ids w) 16"
  let ?st = "Date_now h (ticks w)"
  have caught: thesis
    if t: "execute_try h env r ?eid ?st (after_start w) = (Inl (Thrown msg), w2)" for msg w2
  proof -
    from execute_catch_result [of h env r ?eid ?st msg w2]
    obtain res w' where c: "execute_catch h env r ?eid ?st (Thrown msg) w2 = (Inr res, w')"
      and p: "\<not> res_success res" "res_output res = []"
        "res_error res = Some (or_str msg ''Unknown execution error'')"
        "res_memoryUsed res = 0"
        "res_tier res = tier_name (req_tier r)" "res_executionId res = ?eid"
        "length (res_proof res) = 64"
      by blast
    from execute_caught [OF t] c have "execute h env r w = (Inr res, w')" by simp
    then show thesis using p by (rule failure)
  qed
  show thesis
  proof (cases rule: execute_try_cases [of h env r ?eid ?st "after_start w"])
    case (early m)
    then show thesis by (rule caught)
  next
    case (thrown e w1)
    from thrown(1) have "fst (executeJavaScript h (req_code r) (effective_timeout r)
        (memory (TIER_LIMITS (req_tier r))) ?eid (after_start w)) = Inl e" by simp
    from executeJavaScript_throws_object [OF this] obtain msg where "e = Thrown msg" by blast
    with thrown(2) show thesis using caught by simp
  next
    case (returned out used w1 res w3)
    from execute_returned [OF returned(2)] have ex: "execute h env r w = (Inr res, w3)" .
    show thesis
      by (rule success [OF returned(1) ex returned(3) returned(4) returned(5) returned(6)
            returned(8) returned(7) returned(9)])
  qed
qed

text \<open>
  No isolate outlives \<open>execute\<close> either: the isolates alive after it are those alive
  before it.
\<close>

lemma execute_catch_frame:
  "created (snd (execute_catch h env r eid st e w)) = created w"
  "disposed (snd (execute_catch h env r eid st e w)) = disposed w"
  by (simp_all add: execute_catch_def split_beta Let_def generateProof_frame read_clock_def
      split: sum.splits)

lemma execute_leaves_no_isolate:
  "live_isolates (snd (execute h env r w)) = live_isolates w"
proof -
  let ?eid = "nanoid h (ids w) 16"
  let ?st = "Date_now h (ticks w)"
  let ?js = "executeJavaScript h (req_code r) (effective_timeout r)
               (memory (TIER_LIMITS (req_tier r))) ?eid (after_start w)"
  have start: "live_isolates (after_start w) = live_isolates w"
    by (simp add: live_isolates_def after_start_def)
  have engine: "live_isolates (snd ?js) = live_isolates w"
    using executeJavaScript_live [of h "req_code r" "effective_timeout r"
            "memory (TIER_LIMITS (req_tier r))" ?eid "after_start w"] start
    by simp
  have caught: ?thesis
    if "execute_try h env r ?eid ?st (after_start w) = (Inl e, w2)"
      "live_isolates w2 = live_isolates w" for e w2
  proof -
    from execute_caught [OF that(1)]
    have "live_isolates (snd (execute h env r w)) = live_isolates w2"
      by (simp add: live_isolates_def execute_catch_frame)
    with that(2) show ?thesis by simp
  qed
  show ?thesis
  proof (cases rule: execute_try_cases [of h env r ?eid ?st "after_start w"])
    case (early m)
    then show ?thesis using start by (rule caught)
  next
    case (thrown e w1)
    from thrown(1) engine have "live_isolates w1 = live_isolates w" by simp
    with thrown(2) show ?thesis by (rule caught)
  next
    case (returned out used w1 res w3)
    from returned(1) engine have "live_isolates w1 = live_isolates w" by simp
    with returned(10,11) have "live_isolates w3 = live_isolates w"
      by (simp add: live_isolates_def)
    with execute_returned [OF returned(2)] show ?thesis by simp
  qed
qed

text \<open>
  A run whose engine call throws an error object: \<open>execute\<close> reports the failure with
  the message of that error, or with \<open>Unknown execution error\<close> if the message is
  missing or empty.
\<close>

lemma execute_engine_error:
  assumes allowed: "language_name (req_language r) \<in> set (SANDBOX_LIMITS_allowedLanguages env)"
    and js: "req_language r = Javascript"
    and thrown: "fst (executeJavaScript h (req_code r) (effective_timeout r)
                        (memory (TIER_LIMITS (req_tier r))) (nanoid h (ids w) 16) (after_start w))
                   = Inl (Thrown x)"
  shows "\<exists>res w'. execute h env r w = (Inr res, w') \<and> \<not> res_success res \<and>
           res_memoryUsed res = 0 \<and>
           res_error res = Some (or_str x ''Unknown execution error'')"
proof -
  let ?eid = "nanoid h (ids w) 16"
  let ?st = "Date_now h (ticks w)"
  let ?t = "effective_timeout r"
  let ?m = "memory (TIER_LIMITS (req_tier r))"
  from thrown obtain w1 where "executeJavaScript h (req_code r) ?t ?m ?eid (after_start w)
          = (Inl (Thrown x), w1)"
    by (cases "executeJavaScript h (req_code r) ?t ?m ?eid (after_start w)") simp
  with allowed js
  have "execute_try h env r ?eid ?st (after_start w) = (Inl (Thrown x), w1)"
    by (simp add: execute_try_def)
  from execute_caught [OF this]
  have e: "execute h env r w = execute_catch h env r ?eid ?st (Thrown x) w1" .
  from execute_catch_result [of h env r ?eid ?st x w1] e
  show ?thesis by auto
qed

text \<open>
  The same for an error of the calls in the isolate that is not a memory fault: the
  message is the one the engine's \<open>catch\<close> block gave the error.
\<close>

lemma execute_engine_failure:
  assumes allowed: "language_name (req_language r) \<in> set (SANDBOX_LIMITS_allowedLanguages env)"
    and js: "req_language r = Javascript"
    and new: "ivm_new h (created w) (memory (TIER_LIMITS (req_tier r))) = None"
    and fresh: "created w \<notin> set (disposed w)"
    and failed: "isolate_calls h (created w) (req_code r) (effective_timeout r) = Errored (Thrown msg)
                 \<or> isolate_calls h (created w) (req_code r) (effective_timeout r) = TimedOut (Thrown msg)"
  shows "\<exists>res w'. execute h env r w = (Inr res, w') \<and> \<not> res_success res \<and>
           res_memoryUsed res = 0 \<and>
           res_error res = Some
             (or_str (surfaced h (effective_timeout r) (memory (TIER_LIMITS (req_tier r))) msg)
                ''Unknown execution error'')"
proof -
  have c: "created (after_start w) = created w" "disposed (after_start w) = disposed w"
    by (simp_all add: after_start_def)
  from new fresh failed c
  have "fst (executeJavaScript h (req_code r) (effective_timeout r)
               (memory (TIER_LIMITS (req_tier r))) (nanoid h (ids w) 16) (after_start w))
          = Inl (Thrown (surfaced h (effective_timeout r) (memory (TIER_LIMITS (req_tier r))) msg))"
    by (intro executeJavaScript_failed) simp_all
  from execute_engine_error [OF allowed js this] show ?thesis .
qed

text \<open>A run the memory limit ends: the error reported is the one \<open>dispose\<close> threw.\<close>

lemma execute_memory_fault:
  assumes allowed: "language_name (req_language r) \<in> set (SANDBOX_LIMITS_allowedLanguages env)"
    and js: "req_language r = Javascript"
    and new: "ivm_new h (created w) (memory (TIER_LIMITS (req_tier r))) = None"
    and fault: "isolate_calls h (created w) (req_code r) (effective_timeout r) = MemoryExceeded e"
  shows "\<exists>res w'. execute h env r w = (Inr res, w') \<and> \<not> res_success res \<and>
           res_error res = Some ''Isolate is already disposed''"
proof -
  have c: "created (after_start w) = created w" by (simp add: after_start_def)
  from new fault c
  have "fst (executeJavaScript h (req_code r) (effective_timeout r)
               (memory (TIER_LIMITS (req_tier r))) (nanoid h (ids w) 16) (after_start w))
          = Inl (new_Error ''Isolate is already disposed'')"
    by (intro executeJavaScript_memory_fault) simp_all
  from execute_engine_error [OF allowed js this] show ?thesis by auto
qed

text \<open>The sample request on the hosts whose run fails.\<close>

lemma allowedLanguages_default:
  "SANDBOX_LIMITS_allowedLanguages Map.empty = [''javascript'', ''python'']"
  by (simp add: SANDBOX_LIMITS_allowedLanguages_def)

lemma failing_host_run:
  "ivm_new (failing_host e) i m = None"
  "isolate_calls (failing_host e) i code t = Errored e"
  "ivm_getHeapStatistics (failing_host e) i = Inr 204800"
  by (simp_all add: failing_host_def sample_host_def isolate_calls_def)

lemma sample_request_runs:
  "language_name (req_language (sample_request t tmo))
     \<in> set (SANDBOX_LIMITS_allowedLanguages Map.empty)"
  "req_language (sample_request t tmo) = Javascript"
  "created initial_world \<notin> set (disposed initial_world)"
  by (simp_all add: allowedLanguages_default sample_request_def initial_world_def)

lemma failing_host_execute:
  "\<exists>res w'. execute (failing_host (Thrown msg)) Map.empty (sample_request t tmo) initial_world
               = (Inr res, w') \<and> \<not> res_success res \<and> res_memoryUsed res = 0 \<and>
             res_error res = Some
               (or_str (surfaced (failing_host (Thrown msg)) (effective_timeout (sample_request t tmo))
                          (memory (TIER_LIMITS t)) msg)
                  ''Unknown execution error'')"
proof -
  let ?r = "sample_request t tmo"
  have t: "req_tier ?r = t" by (simp add: sample_request_def)
  have "isolate_calls (failing_host (Thrown msg)) (created initial_world) (req_code ?r)
          (effective_timeout ?r) = Errored (Thrown msg)
        \<or> isolate_calls (failing_host (Thrown msg)) (created initial_world) (req_code ?r)
          (effective_timeout ?r) = TimedOut (Thrown msg)"
    by (simp add: failing_host_run)
  from execute_engine_failure
         [OF sample_request_runs(1,2) failing_host_run(1) sample_request_runs(3) this]
  show ?thesis by (simp add: t)
qed

text \<open>
  With the messages of the library. A run the timeout ends is reported with the library's
  own text, which does not contain the word the \<open>catch\<close> block looks for; a run the
  memory limit ends is reported with the error of \<open>dispose\<close>.
\<close>

lemma timed_out_host_execute:
  "\<exists>res w'. execute timed_out_host Map.empty (sample_request t tmo) initial_world = (Inr res, w') \<and>
             \<not> res_success res \<and> res_error res = Some ''Script execution timed out.''"
proof -
  let ?r = "sample_request t tmo"
  have new: "ivm_new timed_out_host (created initial_world) (memory (TIER_LIMITS (req_tier ?r))) = None"
    by (simp add: timed_out_host_def sample_host_def)
  have "isolate_calls timed_out_host (created initial_world) (req_code ?r) (effective_timeout ?r)
          = TimedOut (new_Error ''Script execution timed out.'')"
    by (simp add: timed_out_host_def sample_host_def isolate_calls_def)
  then have "isolate_calls timed_out_host (created initial_world) (req_code ?r) (effective_timeout ?r)
               = Errored (new_Error ''Script execution timed out.'')
             \<or> isolate_calls timed_out_host (created initial_world) (req_code ?r) (effective_timeout ?r)
               = TimedOut (new_Error ''Script execution timed out.'')"
    by simp
  from execute_engine_failure [OF sample_request_runs(1,2) new sample_request_runs(3) this]
  show ?thesis by (auto simp: surfaced_def)
qed

lemma memory_fault_host_execute:
  "\<exists>res w'. execute memory_fault_host Map.empty (sample_request t tmo) initial_world = (Inr res, w') \<and>
             \<not> res_success res \<and> res_error res = Some ''Isolate is already disposed''"
proof -
  let ?r = "sample_request t tmo"
  have new: "ivm_new memory_fault_host (created initial_world) (memory (TIER_LIMITS (req_tier ?r))) = None"
    by (simp add: memory_fault_host_def sample_host_def)
  have "isolate_calls memory_fault_host (created initial_world) (req_code ?r) (effective_timeout ?r)
          = MemoryExceeded (new_Error ''Isolate was disposed during execution due to memory limit'')"
    by (simp add: memory_fault_host_def sample_host_def isolate_calls_def)
  from execute_memory_fault [OF sample_request_runs(1,2) new this]
  show ?thesis .
qed

text \<open>
  C9: \<open>execute\<close> is total at its public interface. For every request, host, environment
  and world it does not throw but returns a result; the result carries the tier of the
  request, the identifier drawn for the execution and a proof of 64 hexadecimal digits, and
  a result that is not a success has the empty output and a non-empty error message. That
  the identifier is not empty is the contract of \<open>nanoid(16)\<close>, which is the hypothesis.
\<close>

theorem execute_total:
  assumes "length (nanoid h (ids w) 16) = 16"
  shows "\<exists>res w'. execute h env r w = (Inr res, w') \<and>
           res_tier res = tier_name (req_tier r) \<and>
           res_executionId res \<noteq> [] \<and>
           res_proof res \<noteq> [] \<and>
           (\<not> res_success res \<longrightarrow>
              res_output res = [] \<and> (\<exists>m. res_error res = Some m \<and> m \<noteq> []))"
proof -
  from assms have eid: "nanoid h (ids w) 16 \<noteq> []" by auto
  have unknown: "or_str msg ''Unknown execution error'' \<noteq> []" for msg
    by (rule or_str_nonempty) simp
  show ?thesis
  proof (cases rule: execute_outcome [of h env r w])
    case (failure msg res w')
    then show ?thesis using eid unknown by auto
  next
    case (success out used w1 res w')
    then show ?thesis using eid by auto
  qed
qed

theorem execute_total_witness:
  "length (nanoid (failing_host (new_Error ''boom'')) (ids initial_world) 16) = 16 \<and>
   (\<exists>res w'. execute (failing_host (new_Error ''boom'')) Map.empty (sample_request Basic None)
                initial_world = (Inr res, w') \<and>
              \<not> res_success res \<and>
              res_tier res = ''basic'' \<and>
              res_executionId res \<noteq> [] \<and>
              res_proof res \<noteq> [] \<and>
              res_output res = [] \<and>
              (\<exists>m. res_error res = Some m \<and> m \<noteq> []))"
proof -
  let ?h = "failing_host (new_Error ''boom'')"
  have len: "length (nanoid ?h (ids initial_world) 16) = 16"
    by (simp add: failing_host_def sample_host_def)
  from execute_total [OF len, of Map.empty "sample_request Basic None"]
  obtain res w' where
    ex: "execute ?h Map.empty (sample_request Basic None) initial_world = (Inr res, w')" and
    p: "res_tier res = tier_name (req_tier (sample_request Basic None))"
      "res_executionId res \<noteq> []" "res_proof res \<noteq> []"
      "\<not> res_success res \<longrightarrow>
         res_output res = [] \<and> (\<exists>m. res_error res = Some m \<and> m \<noteq> [])"
    by blast
  from failing_host_execute [of "Some ''boom''" Basic None] ex
  have "\<not> res_success res" by auto
  with ex p len show ?thesis by (auto simp: sample_request_def)
qed

section \<open>Reported memory\<close>

text \<open>
  C6, as stated: also for a failed execution the reported memory is read from the
  isolate's heap statistics and not zeroed. On a host whose script fails while the heap
  statistics of the isolate are available (204800 bytes), the result is a failure and
  reports \<open>0\<close>.
\<close>

theorem memoryUsed_counterexample:
  "map_sum id res_success
     (fst (execute (failing_host (new_Error ''Script execution timed out.'')) Map.empty
             (sample_request Basic None) initial_world)) = Inr False \<and>
   map_sum id res_memoryUsed
     (fst (execute (failing_host (new_Error ''Script execution timed out.'')) Map.empty
             (sample_request Basic None) initial_world)) = Inr 0 \<and>
   ivm_getHeapStatistics (failing_host (new_Error ''Script execution timed out.''))
     (created initial_world) = Inr 204800"
proof -
  from failing_host_execute [of "Some ''Script execution timed out.''" Basic None]
  obtain res w' where
    "execute (failing_host (new_Error ''Script execution timed out.'')) Map.empty
       (sample_request Basic None) initial_world = (Inr res, w')"
    "\<not> res_success res" "res_memoryUsed res = 0"
    by blast
  then show ?thesis by (simp add: failing_host_run)
qed

text \<open>
  C6, amended: for every execution that succeeds, the reported memory used is the used
  heap size read from the heap statistics of the execution's isolate, just before the
  isolate is disposed; for every execution that fails, the reported memory used is \<open>0\<close>.
\<close>

theorem memoryUsed_reported:
  "\<exists>res w'. execute h env r w = (Inr res, w') \<and>
     ((res_success res \<and> ivm_getHeapStatistics h (created w) = Inr (res_memoryUsed res)) \<or>
      (\<not> res_success res \<and> res_memoryUsed res = 0))"
proof (cases rule: execute_outcome [of h env r w])
  case (failure msg res w')
  then show ?thesis by auto
next
  case (success out used w1 res w')
  from executeJavaScript_returned [OF success(1)]
  have "ivm_getHeapStatistics h (created w) = Inr used" by (simp add: after_start_def)
  with success show ?thesis by auto
qed

section \<open>Surfaced errors\<close>

text \<open>
  C7, as stated: the error surfaced for a failed run is a structured message and not the
  raw lower-level error text. A script that fails with the error \<open>x is not defined\<close>
  is a run whose surfaced error is that very text.
\<close>

theorem surfaced_error_counterexample:
  "ivm_run (failing_host (new_Error ''x is not defined'')) (created initial_world)
     (wrap_code (req_code (sample_request Basic None)))
     (effective_timeout (sample_request Basic None))
     = Errored (new_Error ''x is not defined'') \<and>
   map_sum id res_error
     (fst (execute (failing_host (new_Error ''x is not defined'')) Map.empty
             (sample_request Basic None) initial_world)) = Inr (Some ''x is not defined'')"
proof -
  from failing_host_execute [of "Some ''x is not defined''" Basic None]
  obtain res w' where
    "execute (failing_host (new_Error ''x is not defined'')) Map.empty
       (sample_request Basic None) initial_world = (Inr res, w')"
    "res_error res = Some
       (or_str (surfaced (failing_host (new_Error ''x is not defined''))
                  (effective_timeout (sample_request Basic None))
                  (memory (TIER_LIMITS Basic)) (Some ''x is not defined''))
          ''Unknown execution error'')"
    by blast
  then show ?thesis
    by (simp add: surfaced_def failing_host_def sample_host_def)
qed

text \<open>
  C7, amended: for every run that ends in a generic execution failure, the surfaced error
  is the raw lower-level message itself (\<open>Unknown execution error\<close> when that message
  is missing or empty), not a structured message. A generic execution failure is a run
  whose engine calls fail with an error object that is neither the timeout's nor the
  memory limit's and whose message contains neither of the words \<open>timeout\<close> and
  \<open>memory\<close>. What is surfaced for a timeout and for a memory fault is left open.
\<close>

theorem generic_failure_surfaces_raw_message:
  assumes "language_name (req_language r) \<in> set (SANDBOX_LIMITS_allowedLanguages env)"
    and "req_language r = Javascript"
    and "ivm_new h (created w) (memory (TIER_LIMITS (req_tier r))) = None"
    and "created w \<notin> set (disposed w)"
    and "isolate_calls h (created w) (req_code r) (effective_timeout r) = Errored (Thrown msg)"
    and "\<not> opt_includes msg ''timeout''"
    and "\<not> opt_includes msg ''memory''"
  shows "\<exists>res w'. execute h env r w = (Inr res, w') \<and> \<not> res_success res \<and>
           res_error res = Some (or_str msg ''Unknown execution error'')"
proof -
  from assms(5)
  have "isolate_calls h (created w) (req_code r) (effective_timeout r) = Errored (Thrown msg)
        \<or> isolate_calls h (created w) (req_code r) (effective_timeout r) = TimedOut (Thrown msg)"
    by simp
  from execute_engine_failure [OF assms(1-4) this] assms(6,7)
  show ?thesis by (auto simp: surfaced_def)
qed

theorem generic_failure_surfaces_raw_message_witness:
  "language_name (req_language (sample_request Basic None))
     \<in> set (SANDBOX_LIMITS_allowedLanguages Map.empty) \<and>
   req_language (sample_request Basic None) = Javascript \<and>
   ivm_new (failing_host (new_Error ''x is not defined'')) (created initial_world)
     (memory (TIER_LIMITS (req_tier (sample_request Basic None)))) = None \<and>
   created initial_world \<notin> set (disposed initial_world) \<and>
   isolate_calls (failing_host (new_Error ''x is not defined'')) (created initial_world)
     (req_code (sample_request Basic None)) (effective_timeout (sample_request Basic None))
     = Errored (new_Error ''x is not defined'') \<and>
   \<not> opt_includes (Some ''x is not defined'') ''timeout'' \<and>
   \<not> opt_includes (Some ''x is not defined'') ''memory'' \<and>
   (\<exists>res w'. execute (failing_host (new_Error ''x is not defined'')) Map.empty
                (sample_request Basic None) initial_world = (Inr res, w') \<and>
              \<not> res_success res \<and>
              res_error res = Some ''x is not defined'')"
proof -
  let ?h = "failing_host (new_Error ''x is not defined'')"
  let ?r = "sample_request Basic None"
  have a: "language_name (req_language ?r) \<in> set (SANDBOX_LIMITS_allowedLanguages Map.empty)"
    by (simp add: allowedLanguages_default sample_request_def)
  have b: "req_language ?r = Javascript" by (simp add: sample_request_def)
  have c: "ivm_new ?h (created initial_world) (memory (TIER_LIMITS (req_tier ?r))) = None"
    by (rule failing_host_run)
  have d: "created initial_world \<notin> set (disposed initial_world)"
    by (simp add: initial_world_def)
  have e: "isolate_calls ?h (created initial_world) (req_code ?r) (effective_timeout ?r)
             = Errored (new_Error ''x is not defined'')"
    by (rule failing_host_run)
  have f: "\<not> opt_includes (Some ''x is not defined'') ''timeout''" by simp
  have g: "\<not> opt_includes (Some ''x is not defined'') ''memory''" by simp
  from generic_failure_surfaces_raw_message [OF a b c d e f g]
  have "\<exists>res w'. execute ?h Map.empty ?r initial_world = (Inr res, w') \<and> \<not> res_success res \<and>
          res_error res = Some ''x is not defined''"
    by simp
  with a b c d e f g show ?thesis by blast
qed

section \<open>Validation of the request body\<close>

lemma z_string_violated:
  assumes "case v of JStr s \<Rightarrow> length s < 1 \<or> 10000 < length s | _ \<Rightarrow> True"
  shows "\<exists>i is. z_string [StrMin 1 m1, StrMax 10000 m2] p v = Inl (i # is) \<and> zi_path i = p"
  using assms by (cases v) (auto simp: z_string_def)

lemma z_enum_violated:
  assumes "case v of JStr s \<Rightarrow> s \<notin> fst ` set vals | _ \<Rightarrow> True"
  shows "\<exists>i. z_enum vals p v = Inl [i] \<and> zi_path i = p"
proof (cases v)
  case (JStr s)
  with assms have "map_of vals s = None" by (simp add: map_of_eq_None_iff)
  with JStr show ?thesis by (simp add: z_enum_def)
qed (simp_all add: z_enum_def)

lemma z_optional_number_violated:
  assumes "case v of JUndefined \<Rightarrow> False | JNum x \<Rightarrow> False | _ \<Rightarrow> True"
  shows "\<exists>i. z_optional z_number p v = Inl [i] \<and> zi_path i = p"
  using assms by (cases v) (simp_all add: z_optional_def z_number_def)

text \<open>On an object, the schema fails as soon as one key fails, with the issues of all keys.\<close>

lemma safeParse_object:
  "ExecuteRequestSchema_safeParse (JObj props) =
     (let c = z_string [StrMin 1 ''Code cannot be empty'', StrMax 10000 ''Code too large'']
                [''code''] (obj_get props ''code'');
          l = z_enum [(''javascript'', Javascript), (''python'', Python)]
                [''language''] (obj_get props ''language'');
          t = z_enum [(''basic'', Basic), (''standard'', Standard), (''premium'', Premium)]
                [''tier''] (obj_get props ''tier'');
          tmo = z_optional z_number [''timeout''] (obj_get props ''timeout'')
      in if isl c \<or> isl l \<or> isl t \<or> isl tmo
         then Inl (issues_of c @ issues_of l @ issues_of t @ issues_of tmo)
         else Inr \<lparr> req_code = projr c, req_language = projr l, req_tier = projr t,
                    req_timeout = projr tmo \<rparr>)"
  by (simp add: ExecuteRequestSchema_safeParse_def Let_def split: sum.splits)

lemma safeParse_lists_violated:
  assumes "field_violated props f"
  shows "\<exists>issues. ExecuteRequestSchema_safeParse (JObj props) = Inl issues \<and>
           [f] \<in> zi_path ` set issues"
proof -
  let ?c = "z_string [StrMin 1 ''Code cannot be empty'', StrMax 10000 ''Code too large'']
              [''code''] (obj_get props ''code'')"
  let ?l = "z_enum [(''javascript'', Javascript), (''python'', Python)]
              [''language''] (obj_get props ''language'')"
  let ?t = "z_enum [(''basic'', Basic), (''standard'', Standard), (''premium'', Premium)]
              [''tier''] (obj_get props ''tier'')"
  let ?tmo = "z_optional z_number [''timeout''] (obj_get props ''timeout'')"
  from assms consider
      (code) "f = ''code''"
        "case obj_get props ''code'' of JStr s \<Rightarrow> length s < 1 \<or> 10000 < length s | _ \<Rightarrow> True"
    | (language) "f = ''language''"
        "case obj_get props ''language'' of
           JStr s \<Rightarrow> s \<notin> set [''javascript'', ''python''] | _ \<Rightarrow> True"
    | (tier) "f = ''tier''"
        "case obj_get props ''tier'' of
           JStr s \<Rightarrow> s \<notin> set [''basic'', ''standard'', ''premium''] | _ \<Rightarrow> True"
    | (timeout) "f = ''timeout''"
        "case obj_get props ''timeout'' of JUndefined \<Rightarrow> False | JNum x \<Rightarrow> False | _ \<Rightarrow> True"
    by (auto simp: field_violated_def split: if_splits)
  then have "(isl ?c \<or> isl ?l \<or> isl ?t \<or> isl ?tmo) \<and>
             [f] \<in> zi_path ` set (issues_of ?c @ issues_of ?l @ issues_of ?t @ issues_of ?tmo)"
  proof cases
    case code
    from z_string_violated [OF code(2)] obtain i "is" where
      "?c = Inl (i # is)" "zi_path i = [''code'']" by blast
    with code(1) show ?thesis by force
  next
    case language
    then have "case obj_get props ''language'' of
        JStr s \<Rightarrow> s \<notin> fst ` set [(''javascript'', Javascript), (''python'', Python)] | _ \<Rightarrow> True"
      by (simp split: jsvalue.splits)
    from z_enum_violated [OF this] obtain i where
      "?l = Inl [i]" "zi_path i = [''language'']" by blast
    with language(1) show ?thesis by force
  next
    case tier
    then have "case obj_get props ''tier'' of
        JStr s \<Rightarrow> s \<notin> fst ` set [(''basic'', Basic), (''standard'', Standard), (''premium'', Premium)]
      | _ \<Rightarrow> True"
      by (simp split: jsvalue.splits)
    from z_enum_violated [OF this] obtain i where
      "?t = Inl [i]" "zi_path i = [''tier'']" by blast
    with tier(1) show ?thesis by force
  next
    case timeout
    from z_optional_number_violated [OF timeout(2)] obtain i where
      "?tmo = Inl [i]" "zi_path i = [''timeout'']" by blast
    with timeout(1) show ?thesis by force
  qed
  then show ?thesis
    by (simp add: safeParse_object Let_def)
qed

text \<open>
  C8: for every request whose body is an object, the validation error lists every
  violated field, not only the first. Whichever field \<open>f\<close> of the body violates its
  constraint, and whatever the other fields are, the handler answers 400 with the issues
  of the schema, and one of the issues has the path \<open>f\<close>.
\<close>

theorem validation_lists_every_violated_field:
  assumes "body req = JObj props" and "field_violated props f"
  shows "\<exists>issues. executeHandler h env req w =
             (Inr \<lparr> status = 400, payload = InvalidRequest issues \<rparr>, w) \<and>
           [f] \<in> zi_path ` set issues"
proof -
  from safeParse_lists_violated [OF assms(2)] obtain issues where
    "ExecuteRequestSchema_safeParse (JObj props) = Inl issues" "[f] \<in> zi_path ` set issues"
    by blast
  with assms(1) show ?thesis by (simp add: executeHandler_def)
qed

lemma bad_body_violations:
  "field_violated bad_body ''code'' \<and> field_violated bad_body ''language'' \<and>
   field_violated bad_body ''tier''"
  by (simp add: field_violated_def bad_body_def obj_get_def)

theorem validation_lists_every_violated_field_witness:
  "body \<lparr> body = JObj bad_body, x_payment = None, x402Payment = None \<rparr> = JObj bad_body \<and>
   field_violated bad_body ''code'' \<and>
   field_violated bad_body ''language'' \<and>
   field_violated bad_body ''tier'' \<and>
   (\<exists>issues. executeHandler sample_host Map.empty
                \<lparr> body = JObj bad_body, x_payment = None, x402Payment = None \<rparr> initial_world =
                (Inr \<lparr> status = 400, payload = InvalidRequest issues \<rparr>, initial_world) \<and>
              [''code''] \<in> zi_path ` set issues \<and>
              [''language''] \<in> zi_path ` set issues \<and>
              [''tier''] \<in> zi_path ` set issues)"
proof -
  let ?req = "\<lparr> body = JObj bad_body, x_payment = None, x402Payment = None \<rparr>"
  have b: "body ?req = JObj bad_body" by simp
  note v = bad_body_violations
  from validation_lists_every_violated_field [OF b, of "''code''" sample_host Map.empty initial_world] v
  obtain i1 where 1: "executeHandler sample_host Map.empty ?req initial_world =
      (Inr \<lparr> status = 400, payload = InvalidRequest i1 \<rparr>, initial_world)"
      "[''code''] \<in> zi_path ` set i1"
    by blast
  from validation_lists_every_violated_field [OF b, of "''language''" sample_host Map.empty initial_world] v
  obtain i2 where 2: "executeHandler sample_host Map.empty ?req initial_world =
      (Inr \<lparr> status = 400, payload = InvalidRequest i2 \<rparr>, initial_world)"
      "[''language''] \<in> zi_path ` set i2"
    by blast
  from validation_lists_every_violated_field [OF b, of "''tier''" sample_host Map.empty initial_world] v
  obtain i3 where 3: "executeHandler sample_host Map.empty ?req initial_world =
      (Inr \<lparr> status = 400, payload = InvalidRequest i3 \<rparr>, initial_world)"
      "[''tier''] \<in> zi_path ` set i3"
    by blast
  from 1 2 3 have "i2 = i1" "i3 = i1" by simp_all
  with 1 2 3 b v show ?thesis by blast
qed

text \<open>
  A body that is not an object has no fields to list: it is answered with the single
  issue zod raises at the root.
\<close>

lemma non_object_body_rejected:
  assumes "\<And>props. body req \<noteq> JObj props"
  shows "executeHandler h env req w =
           (Inr \<lparr> status = 400,
                   payload = InvalidRequest
                     [\<lparr> zi_code = invalid_type, zi_path = [], zi_message = None \<rparr>] \<rparr>, w)"
  using assms
  by (cases "body req") (auto simp: executeHandler_def ExecuteRequestSchema_safeParse_def)

section \<open>The payment challenge\<close>

text \<open>
  C2: for every request to the paid route that carries no payment evidence and whose body
  names a tier, the answer is the payment-required response quoting the price of that
  tier, in the smallest unit, together with the payee address of the configuration; the
  world is left as it was, so no sandbox execution occurs.
\<close>

theorem payment_challenge_quotes_named_tier:
  assumes "x_payment req = None" and "body_tier (body req) = Some t"
  shows "post_api_execute h env verify req w =
     (Inr \<lparr> status = 402,
            payload = PaymentRequired ''Code execution in secure sandbox''
              \<lparr> required_amount = smallest_unit (tier_price env t),
                resource = ''/api/execute'',
                payTo = WALLET_ADDRESSES_base env,
                asset = BASE_NETWORK_usdcAddress env,
                network = BASE_NETWORK_name,
                scheme = ''eip3009'' \<rparr> \<rparr>, w)"
  using assms by (simp add: post_api_execute_def requirePayment_def)

theorem payment_challenge_quotes_named_tier_witness:
  "x_payment unpaid_basic_request = None \<and>
   body_tier (body unpaid_basic_request) = Some Basic \<and>
   tier_price Map.empty Basic = Fin (1 / 100) \<and>
   post_api_execute sample_host Map.empty (\<lambda>evidence price. Inl \<lparr> status = 402, payload = PaymentStateInvalid \<rparr>)
     unpaid_basic_request initial_world =
     (Inr \<lparr> status = 402,
            payload = PaymentRequired ''Code execution in secure sandbox''
              \<lparr> required_amount = Fin 10000,
                resource = ''/api/execute'',
                payTo = ''0x11c24Fbcd702cd611729F8402d8fB51ECa75Ba83'',
                asset = ''0x833589fCD6eDb6E08f4c7C32D4f71b54bdA02913'',
                network = ''base'',
                scheme = ''eip3009'' \<rparr> \<rparr>, initial_world)"
proof -
  have a: "x_payment unpaid_basic_request = None"
    by (simp add: unpaid_basic_request_def)
  have b: "body_tier (body unpaid_basic_request) = Some Basic"
    by (simp add: unpaid_basic_request_def body_tier_def obj_get_def)
  have c: "tier_price Map.empty Basic = Fin (1 / 100)"
    by (simp add: PRICING_default)
  from payment_challenge_quotes_named_tier [OF a b, of sample_host Map.empty _ initial_world] a b c
  show ?thesis
    by (simp add: WALLET_ADDRESSES_base_def BASE_NETWORK_usdcAddress_def BASE_NETWORK_name_def)
qed

end
